theory Spec2Isabelle
  imports Main
begin

section \<open>Instagram profile scraper backend (app.py)\<close>

text \<open>
  A shallow embedding of \<^verbatim>\<open>src/app.py\<close>. The external scraping library, the
  wall clock and the file system are the program's environment: the library's answer to
  each request and the clock's reading at each call are oracles indexed by a counter that
  the program state carries; what the file system does to one write is an argument of the
  function that writes. Exceptions are values of \<open>py_error + 'a\<close>; a \<^verbatim>\<open>try\<close> block
  is a function that may return \<open>Inl\<close>, and its \<^verbatim>\<open>except\<close> clause is the case
  distinction on that result. Logging is not modelled.
\<close>

subsection \<open>Configuration\<close>

definition CACHE_DURATION_MINUTES :: int where
  "CACHE_DURATION_MINUTES = 30"

definition MAX_RETRIES :: nat where
  "MAX_RETRIES = 3"

definition RETRY_DELAY :: nat where
  "RETRY_DELAY = 5"

definition USERNAMES :: "string list" where
  "USERNAMES =
    [''instagram'', ''cristiano'', ''leomessi'', ''selenagomez'', ''therock'',
     ''kyliejenner'', ''arianagrande'', ''kimkardashian'', ''beyonce'', ''justinbieber'',
     ''nike'', ''natgeo'', ''nasa'', ''redbull'', ''spotify'',
     ''tarakeshwar_bikumandla'', ''anshsaxenna'']"

subsection \<open>Exceptions and floating point\<close>

datatype py_error = ValueError | ZeroDivisionError | OverflowError | OSError

text \<open>
  The program computes three numbers in floating point. Their bit patterns are outside this
  development: the float operations the source applies are the fields of a record that every
  function using them takes as its first argument, over an arbitrary type \<open>'f\<close> of float
  values. What is fixed here is which operation is applied to what, in which order, and
  under which guard.
  \<^item> \<open>fzero\<close> is the literal \<^verbatim>\<open>0.0\<close>;
  \<^item> \<open>ftruediv a b\<close> is \<^verbatim>\<open>a / b\<close> on two integers with \<open>b \<noteq> 0\<close>: \<open>None\<close> when the
    quotient is too large for a float (Python raises OverflowError);
  \<^item> \<open>fmul x n\<close> is \<^verbatim>\<open>x * n\<close> for a float and an integer literal;
  \<^item> \<open>fround x n\<close> is \<^verbatim>\<open>round(x, n)\<close>;
  \<^item> \<open>ftotal_seconds d\<close> is \<^verbatim>\<open>d.total_seconds()\<close> of a timedelta of \<open>d\<close> microseconds;
  \<^item> \<open>fdivi x n\<close> is \<^verbatim>\<open>x / n\<close> for a float and a non-zero integer literal.
\<close>

record 'f float_ops =
  fzero :: 'f
  ftruediv :: "int \<Rightarrow> int \<Rightarrow> 'f option"
  fmul :: "'f \<Rightarrow> int \<Rightarrow> 'f"
  fround :: "'f \<Rightarrow> nat \<Rightarrow> 'f"
  ftotal_seconds :: "int \<Rightarrow> 'f"
  fdivi :: "'f \<Rightarrow> int \<Rightarrow> 'f"

text \<open>Python's \<^verbatim>\<open>a / b\<close> on integers: division by zero raises, as does a quotient out of range.\<close>

definition py_truediv :: "'f float_ops \<Rightarrow> int \<Rightarrow> int \<Rightarrow> py_error + 'f" where
  "py_truediv fl a b =
     (if b = 0 then Inl ZeroDivisionError
      else case ftruediv fl a b of None \<Rightarrow> Inl OverflowError | Some q \<Rightarrow> Inr q)"

text \<open>
  The free float operations: every operation builds the term that names it. They serve to
  run the model on concrete inputs without fixing any arithmetic.
\<close>

datatype sym_float =
    FZero
  | FTrueDiv int int
  | FMul sym_float int
  | FRound sym_float nat
  | FTotalSeconds int
  | FDivI sym_float int

definition sym_ops :: "sym_float float_ops" where
  "sym_ops = \<lparr>fzero = FZero, ftruediv = (\<lambda>a b. Some (FTrueDiv a b)), fmul = FMul,
     fround = FRound, ftotal_seconds = FTotalSeconds, fdivi = FDivI\<rparr>"

subsection \<open>The external profile source\<close>

text \<open>
  The attributes of \<^verbatim>\<open>instaloader.Profile\<close> that the program reads. An attribute that
  may be \<^verbatim>\<open>None\<close> is an option; \<open>profile_business_category_name\<close> is \<open>None\<close> when
  \<^verbatim>\<open>hasattr\<close> says the attribute is missing, and \<open>Some v\<close> for an attribute of value \<open>v\<close>.
\<close>

record profile =
  profile_username :: string
  profile_full_name :: "string option"
  profile_followers :: int
  profile_followees :: int
  profile_mediacount :: int
  profile_profile_pic_url :: string
  profile_is_verified :: bool
  profile_biography :: "string option"
  profile_external_url :: "string option"
  profile_is_private :: bool
  profile_is_business_account :: bool
  profile_business_category_name :: "string option option"

text \<open>
  What the body of the \<^verbatim>\<open>try\<close> block of \<^verbatim>\<open>fetch_profile_data\<close> meets: the profile
  with all its attributes, or one of the three classes of exception the function tells
  apart, the last two with the text of \<^verbatim>\<open>str(e)\<close>.
\<close>

datatype source_outcome =
    Found profile
  | ProfileNotExistsException
  | ConnectionException string
  | OtherException string

text \<open>
  The environment: \<open>source k u\<close> is the library's answer to the \<open>k\<close>-th request the process
  makes, which asks for \<open>u\<close>; \<open>clock k\<close> is the \<open>k\<close>-th reading of \<^verbatim>\<open>datetime.now()\<close>, in
  microseconds. A timestamp is kept as that integer: \<^verbatim>\<open>isoformat\<close> followed by
  \<^verbatim>\<open>fromisoformat\<close> gives a naive datetime back unchanged. \<open>max_str_digits\<close> is the
  interpreter's bound on the digits of an integer read from a string
  (\<^verbatim>\<open>sys.get_int_max_str_digits()\<close>: 4300 unless configured, 0 where there is none).

  A character of a string of this model is one code point of the Python string, below 256.
\<close>

record env =
  source :: "nat \<Rightarrow> string \<Rightarrow> source_outcome"
  clock :: "nat \<Rightarrow> int"
  max_str_digits :: nat

record world =
  calls :: nat
  slept :: nat
  ticks :: nat

definition sleep :: "nat \<Rightarrow> world \<Rightarrow> world" where
  "sleep n w = w\<lparr>slept := slept w + n\<rparr>"

definition profile_from_username :: "env \<Rightarrow> string \<Rightarrow> world \<Rightarrow> source_outcome \<times> world" where
  "profile_from_username e username w = (source e (calls w) username, w\<lparr>calls := calls w + 1\<rparr>)"

definition datetime_now :: "env \<Rightarrow> world \<Rightarrow> int \<times> world" where
  "datetime_now e w = (clock e (ticks w), w\<lparr>ticks := ticks w + 1\<rparr>)"

definition timedelta_minutes :: "int \<Rightarrow> int" where
  "timedelta_minutes m = m * 60000000"

subsection \<open>Records of the cache\<close>

record 'f profile_data =
  username :: string
  fullName :: string
  followers :: int
  following :: int
  posts :: int
  profilePic :: string
  isVerified :: bool
  biography :: string
  externalUrl :: string
  isPrivate :: bool
  isBusiness :: bool
  category :: "string option"
  fetchedAt :: int
  engagementRate :: 'f

record fetch_error =
  error_username :: string
  error_message :: string

record 'f cache =
  profiles :: "'f profile_data list"
  last_update :: "int option"
  fetch_count :: int
  errors :: "fetch_error list"

definition initial_cache :: "'f cache" where
  "initial_cache = \<lparr>profiles = [], last_update = None, fetch_count = 0, errors = []\<rparr>"

subsection \<open>calculate_engagement_rate\<close>

text \<open>The body of the \<^verbatim>\<open>try\<close> block: the guard on zero followers, then the division.\<close>

definition engagement_try :: "'f float_ops \<Rightarrow> profile \<Rightarrow> py_error + 'f" where
  "engagement_try fl p =
     (if profile_followers p = 0 then Inr (fzero fl)
      else case py_truediv fl (profile_followees p) (profile_followers p) of
             Inl err \<Rightarrow> Inl err
           | Inr q \<Rightarrow> Inr (fround fl (fmul fl q 100) 2))"

text \<open>The bare \<^verbatim>\<open>except\<close> turns every exception into \<^verbatim>\<open>0.0\<close>.\<close>

definition calculate_engagement_rate :: "'f float_ops \<Rightarrow> profile \<Rightarrow> 'f" where
  "calculate_engagement_rate fl p =
     (case engagement_try fl p of Inl err \<Rightarrow> fzero fl | Inr r \<Rightarrow> r)"

subsection \<open>fetch_profile_data\<close>

definition apostrophe :: string where
  "apostrophe = [CHR 0x27]"

text \<open>Python's \<^verbatim>\<open>x or y\<close> for a string \<open>x\<close> that may be \<^verbatim>\<open>None\<close>.\<close>

definition or_else :: "string option \<Rightarrow> string \<Rightarrow> string" where
  "or_else x y = (case x of None \<Rightarrow> y | Some s \<Rightarrow> if s = [] then y else s)"

text \<open>The dictionary literal \<^verbatim>\<open>data\<close>; \<open>now\<close> is the reading of the clock for \<^verbatim>\<open>fetchedAt\<close>.\<close>

definition profile_record :: "'f float_ops \<Rightarrow> profile \<Rightarrow> int \<Rightarrow> 'f profile_data" where
  "profile_record fl p now =
     \<lparr>username = profile_username p,
      fullName = or_else (profile_full_name p) (profile_username p),
      followers = profile_followers p,
      following = profile_followees p,
      posts = profile_mediacount p,
      profilePic = profile_profile_pic_url p,
      isVerified = profile_is_verified p,
      biography = (case profile_biography p of None \<Rightarrow> []
                   | Some b \<Rightarrow> if b = [] then [] else take 100 b),
      externalUrl = or_else (profile_external_url p) [],
      isPrivate = profile_is_private p,
      isBusiness = profile_is_business_account p,
      category = (case profile_business_category_name p of None \<Rightarrow> Some [] | Some v \<Rightarrow> v),
      fetchedAt = now,
      engagementRate = calculate_engagement_rate fl p\<rparr>"

definition not_exists_error :: "string \<Rightarrow> string" where
  "not_exists_error u = ''Profile '' @ apostrophe @ u @ apostrophe @ '' does not exist''"

definition connection_error :: "string \<Rightarrow> string" where
  "connection_error u = ''Connection error for '' @ apostrophe @ u @ apostrophe"

definition other_error :: "string \<Rightarrow> string \<Rightarrow> string" where
  "other_error u m = ''Error fetching '' @ apostrophe @ u @ apostrophe @ '': '' @ m"

text \<open>
  The function as decorated by \<^verbatim>\<open>rate_limit\<close>: every call, the recursive one too (the
  name is bound to the wrapper), first sleeps 2 seconds. The result is the pair
  \<^verbatim>\<open>(data, error)\<close> and the world after the call.
\<close>

function fetch_profile_data ::
  "'f float_ops \<Rightarrow> env \<Rightarrow> string \<Rightarrow> nat \<Rightarrow> world
     \<Rightarrow> ('f profile_data option \<times> string option) \<times> world" where
  "fetch_profile_data fl e u retry_count w =
     (case profile_from_username e u (sleep 2 w) of (outcome, w1) \<Rightarrow>
        (case outcome of
           Found p \<Rightarrow>
             (case datetime_now e w1 of (now, w2) \<Rightarrow>
                ((Some (profile_record fl p now), None), w2))
         | ProfileNotExistsException \<Rightarrow> ((None, Some (not_exists_error u)), w1)
         | ConnectionException m \<Rightarrow>
             (if retry_count < MAX_RETRIES - 1
              then fetch_profile_data fl e u (retry_count + 1) (sleep RETRY_DELAY w1)
              else ((None, Some (connection_error u)), w1))
         | OtherException m \<Rightarrow> ((None, Some (other_error u m)), w1)))"
  by pat_completeness auto
termination
  by (relation "measure (\<lambda>(fl, e, u, r, w). MAX_RETRIES - r)") (auto simp: MAX_RETRIES_def)

declare fetch_profile_data.simps [simp del]

subsection \<open>The cache file\<close>

text \<open>
  What \<^verbatim>\<open>load_cache\<close> can find: no file; a file on which the \<^verbatim>\<open>try\<close> block raises
  (it cannot be opened, is not JSON, is no object, has no list of profiles or a time stamp
  that is no ISO date); or a snapshot as \<^verbatim>\<open>save_cache\<close> writes it. A snapshot whose
  \<^verbatim>\<open>last_update\<close> is null or empty has \<open>last_update = None\<close>.
\<close>

datatype 'f disk = NoFile | Malformed | Snapshot "'f cache"

text \<open>
  What the file system does to one write: it succeeds; \<^verbatim>\<open>open\<close> raises and the file stays
  as it was; or \<^verbatim>\<open>json.dump\<close> raises after \<^verbatim>\<open>open\<close> has truncated the file.
\<close>

datatype write_outcome = Written | OpenFails | DumpFails

definition write_file :: "write_outcome \<Rightarrow> 'f cache \<Rightarrow> 'f disk \<Rightarrow> (py_error + unit) \<times> 'f disk" where
  "write_file wo data d =
     (case wo of
        Written \<Rightarrow> (Inr (), Snapshot data)
      | OpenFails \<Rightarrow> (Inl OSError, d)
      | DumpFails \<Rightarrow> (Inl OSError, Malformed))"

definition save_cache :: "write_outcome \<Rightarrow> 'f cache \<Rightarrow> 'f disk \<Rightarrow> (py_error + unit) \<times> 'f disk" where
  "save_cache wo data d =
     (case write_file wo data d of
        (Inl err, d') \<Rightarrow> (Inr (), d')
      | (Inr u, d') \<Rightarrow> (Inr (), d'))"

definition load_cache :: "env \<Rightarrow> 'f disk \<Rightarrow> world \<Rightarrow> 'f cache option \<times> world" where
  "load_cache e d w =
     (case d of
        NoFile \<Rightarrow> (None, w)
      | Malformed \<Rightarrow> (None, w)
      | Snapshot data \<Rightarrow>
          (case last_update data of
             None \<Rightarrow> (None, w)
           | Some t \<Rightarrow>
               (case datetime_now e w of (now, w') \<Rightarrow>
                  if now - t < timedelta_minutes CACHE_DURATION_MINUTES
                  then (Some data, w') else (None, w'))))"

subsection \<open>update_cache_data\<close>

record 'f state =
  cache :: "'f cache"
  disk :: "'f disk"
  world :: world

text \<open>
  The loop over the user names. A record is a dictionary of fourteen keys, hence true; an
  error message is true when it is not the empty string.
\<close>

fun fetch_all ::
  "'f float_ops \<Rightarrow> env \<Rightarrow> string list \<Rightarrow> 'f profile_data list \<times> fetch_error list \<Rightarrow> world
     \<Rightarrow> ('f profile_data list \<times> fetch_error list) \<times> world" where
  "fetch_all fl e [] acc w = (acc, w)"
| "fetch_all fl e (u # us) (ps, es) w =
     (case fetch_profile_data fl e u 0 w of ((profile_data, error), w') \<Rightarrow>
        fetch_all fl e us
          (case profile_data of
             Some d \<Rightarrow> (ps @ [d], es)
           | None \<Rightarrow>
               (case error of
                  None \<Rightarrow> (ps, es)
                | Some msg \<Rightarrow>
                    if msg \<noteq> [] then (ps, es @ [\<lparr>error_username = u, error_message = msg\<rparr>])
                    else (ps, es)))
          w')"

text \<open>
  \<^verbatim>\<open>list.sort(key=..., reverse=True)\<close> is stable: elements with equal keys keep their
  order. A stable sort has one result, which \<open>sort_key\<close> on the negated key computes.
\<close>

definition sort_by_followers :: "'f profile_data list \<Rightarrow> 'f profile_data list" where
  "sort_by_followers ps = sort_key (\<lambda>x. - followers x) ps"

definition update_cache_data ::
  "'f float_ops \<Rightarrow> env \<Rightarrow> write_outcome \<Rightarrow> string list \<Rightarrow> 'f state
     \<Rightarrow> (py_error + 'f profile_data list \<times> fetch_error list) \<times> 'f state" where
  "update_cache_data fl e wo usernames st =
     (case fetch_all fl e usernames ([], []) (world st) of ((fetched, errs), w1) \<Rightarrow>
        (case datetime_now e w1 of (now, w2) \<Rightarrow>
           (let sorted_profiles = sort_by_followers fetched;
                c = \<lparr>profiles = sorted_profiles, last_update = Some now,
                     fetch_count = fetch_count (cache st) + 1, errors = errs\<rparr>
            in case save_cache wo c (disk st) of
                 (Inl err, d) \<Rightarrow> (Inl err, \<lparr>cache = c, disk = d, world = w2\<rparr>)
               | (Inr u, d) \<Rightarrow> (Inr (sorted_profiles, errs), \<lparr>cache = c, disk = d, world = w2\<rparr>))))"

subsection \<open>Start of the process\<close>

definition initial_world :: world where
  "initial_world = \<lparr>calls = 0, slept = 0, ticks = 0\<rparr>"

text \<open>
  \<^verbatim>\<open>get_cache_age_minutes\<close>: \<^verbatim>\<open>None\<close> without a time stamp, else the age in minutes,
  rounded to one decimal.
\<close>

definition get_cache_age_minutes ::
  "'f float_ops \<Rightarrow> env \<Rightarrow> 'f cache \<Rightarrow> world \<Rightarrow> 'f option \<times> world" where
  "get_cache_age_minutes fl e c w =
     (case last_update c of
        None \<Rightarrow> (None, w)
      | Some t \<Rightarrow>
          (case datetime_now e w of (now, w') \<Rightarrow>
             (Some (fround fl (fdivi fl (ftotal_seconds fl (now - t)) 60) 1), w')))"

text \<open>
  The main block up to the start of the server. A snapshot that \<^verbatim>\<open>load_cache\<close> returns
  is a dictionary with keys, hence true, and \<^verbatim>\<open>cache.update\<close> overwrites the four keys of
  the cache; the log line that follows reads the clock once more.
\<close>

definition main_startup ::
  "'f float_ops \<Rightarrow> env \<Rightarrow> write_outcome \<Rightarrow> 'f disk \<Rightarrow> (py_error + unit) \<times> 'f state" where
  "main_startup fl e wo d =
     (case load_cache e d initial_world of
        (Some cached_data, w) \<Rightarrow>
          (Inr (), \<lparr>cache = cached_data, disk = d,
                    world = snd (get_cache_age_minutes fl e cached_data w)\<rparr>)
      | (None, w) \<Rightarrow>
          (case update_cache_data fl e wo USERNAMES \<lparr>cache = initial_cache, disk = d, world = w\<rparr> of
             (Inl err, st) \<Rightarrow> (Inl err, st)
           | (Inr r, st) \<Rightarrow> (Inr (), st)))"

subsection \<open>Query parameters\<close>

record request =
  args :: "string \<rightharpoonup> string"

text \<open>
  \<^verbatim>\<open>str.lower\<close> on code points below 256: the capital letters of ASCII and those from
  192 to 222, the multiplication sign 215 apart, move up by 32.
\<close>

definition lower_char :: "char \<Rightarrow> char" where
  "lower_char c =
     (let n = (of_char c :: nat)
      in if (65 \<le> n \<and> n \<le> 90) \<or> (192 \<le> n \<and> n \<le> 222 \<and> n \<noteq> 215) then char_of (n + 32) else c)"

definition lower :: "string \<Rightarrow> string" where
  "lower s = map lower_char s"

text \<open>
  \<^verbatim>\<open>int(s)\<close> for a string \<open>s\<close>. White space around the number is skipped: the characters
  9 to 13 and 32, and of those above 127 the two that are white space in Unicode, 133 and
  160 (the separators 28 to 31 are not skipped). Then come an optional sign and decimal
  digits, between two of which one underscore may stand. Anything else raises ValueError,
  and so does a number of more than \<open>lim\<close> digits, leading zeros counted, when the
  interpreter has a bound \<open>lim\<close>; the bound is looked at above 640 digits only.
\<close>

definition is_space :: "char \<Rightarrow> bool" where
  "is_space c = (let n = (of_char c :: nat) in (9 \<le> n \<and> n \<le> 13) \<or> n = 32 \<or> n = 133 \<or> n = 160)"

definition strip :: "string \<Rightarrow> string" where
  "strip s = rev (dropWhile is_space (rev (dropWhile is_space s)))"

definition digit_of :: "char \<Rightarrow> int option" where
  "digit_of c = (let n = (of_char c :: nat) in if 48 \<le> n \<and> n \<le> 57 then Some (int n - 48) else None)"

text \<open>The digits after the first one; one underscore may stand between two digits.\<close>

fun parse_digits :: "string \<Rightarrow> int \<Rightarrow> int option" where
  "parse_digits [] acc = Some acc"
| "parse_digits [c] acc =
     (case digit_of c of None \<Rightarrow> None | Some v \<Rightarrow> Some (acc * 10 + v))"
| "parse_digits (c # d # ds) acc =
     (if c = CHR ''_''
      then (case digit_of d of None \<Rightarrow> None | Some v \<Rightarrow> parse_digits ds (acc * 10 + v))
      else (case digit_of c of None \<Rightarrow> None | Some v \<Rightarrow> parse_digits (d # ds) (acc * 10 + v)))"

definition parse_unsigned :: "string \<Rightarrow> int option" where
  "parse_unsigned s =
     (case s of
        [] \<Rightarrow> None
      | c # cs \<Rightarrow> (case digit_of c of None \<Rightarrow> None | Some v \<Rightarrow> parse_digits cs v))"

definition too_many_digits :: "nat \<Rightarrow> string \<Rightarrow> bool" where
  "too_many_digits lim t =
     (let digits = length (filter (\<lambda>c. digit_of c \<noteq> None) t)
      in 640 < digits \<and> 0 < lim \<and> lim < digits)"

definition py_int :: "nat \<Rightarrow> string \<Rightarrow> py_error + int" where
  "py_int lim s =
     (let t = strip s
      in case (case t of
                 [] \<Rightarrow> None
               | c # cs \<Rightarrow>
                   if c = CHR ''-'' then map_option uminus (parse_unsigned cs)
                   else if c = CHR ''+'' then parse_unsigned cs
                   else parse_unsigned (c # cs)) of
           None \<Rightarrow> Inl ValueError
         | Some n \<Rightarrow> if too_many_digits lim t then Inl ValueError else Inr n)"

subsection \<open>The HTTP handlers\<close>

text \<open>
  A handler returns the body it passes to \<^verbatim>\<open>jsonify\<close>, or the exception that leaves it;
  the framework answers an exception with status 500 and no JSON body.
\<close>

record 'f profiles_response =
  profiles_success :: bool
  profiles_data :: "'f profile_data list"
  profiles_last_update :: "int option"
  profiles_total :: nat
  profiles_cache_age_minutes :: "'f option"
  profiles_errors :: "fetch_error list"

text \<open>
  The two parameters of \<^verbatim>\<open>/api/profiles\<close>:
  \<^verbatim>\<open>request.args.get('verified', '').lower() == 'true'\<close> and
  \<^verbatim>\<open>int(request.args.get('min_followers', 0))\<close>.
\<close>

definition verified_only :: "request \<Rightarrow> bool" where
  "verified_only req = (lower (case args req ''verified'' of None \<Rightarrow> [] | Some v \<Rightarrow> v) = ''true'')"

definition min_followers :: "env \<Rightarrow> request \<Rightarrow> py_error + int" where
  "min_followers e req =
     (case args req ''min_followers'' of None \<Rightarrow> Inr 0 | Some v \<Rightarrow> py_int (max_str_digits e) v)"

definition get_profiles ::
  "'f float_ops \<Rightarrow> env \<Rightarrow> request \<Rightarrow> 'f cache \<Rightarrow> world \<Rightarrow> (py_error + 'f profiles_response) \<times> world" where
  "get_profiles fl e req c w =
     (case min_followers e req of
        Inl err \<Rightarrow> (Inl err, w)
      | Inr m \<Rightarrow>
          (let ps1 = (if verified_only req then filter isVerified (profiles c) else profiles c);
               ps2 = (if m > 0 then filter (\<lambda>p. followers p \<ge> m) ps1 else ps1)
           in case get_cache_age_minutes fl e c w of (age, w') \<Rightarrow>
                (Inr \<lparr>profiles_success = True, profiles_data = ps2,
                      profiles_last_update = last_update c, profiles_total = length ps2,
                      profiles_cache_age_minutes = age, profiles_errors = errors c\<rparr>, w')))"

record index_response =
  index_name :: string
  index_version :: string
  index_description :: string
  index_endpoints :: "(string \<times> string) list"
  index_profiles_cached :: nat
  index_last_update :: "int option"
  index_total_fetches :: int
  index_status :: string

definition index :: "'f cache \<Rightarrow> py_error + index_response" where
  "index c =
     Inr \<lparr>index_name = ''Instagram Profile Analytics API'', index_version = ''2.0.0'',
          index_description = ''Enhanced backend with caching, rate limiting, and error handling'',
          index_endpoints =
            [(''GET /'', ''API documentation''), (''GET /api/health'', ''Health check''),
             (''GET /api/profiles'', ''Get all cached profiles''),
             (''POST /api/refresh'', ''Force refresh all profiles''),
             (''GET /api/stats'', ''Get analytics statistics'')],
          index_profiles_cached = length (profiles c), index_last_update = last_update c,
          index_total_fetches = fetch_count c, index_status = ''healthy''\<rparr>"

record 'f health_response =
  health_status :: string
  health_profiles_cached :: nat
  health_last_update :: "int option"
  health_cache_age_minutes :: "'f option"
  health_errors_count :: nat

definition health_check ::
  "'f float_ops \<Rightarrow> env \<Rightarrow> 'f cache \<Rightarrow> world \<Rightarrow> (py_error + 'f health_response) \<times> world" where
  "health_check fl e c w =
     (case get_cache_age_minutes fl e c w of (age, w') \<Rightarrow>
        (Inr \<lparr>health_status = ''healthy'', health_profiles_cached = length (profiles c),
              health_last_update = last_update c, health_cache_age_minutes = age,
              health_errors_count = length (errors c)\<rparr>, w'))"

fun str_nat :: "nat \<Rightarrow> string" where
  "str_nat n = (if n < 10 then [char_of (48 + n)] else str_nat (n div 10) @ [char_of (48 + n mod 10)])"

declare str_nat.simps [simp del]

record 'f refresh_response =
  refresh_success :: bool
  refresh_message :: string
  refresh_data :: "'f profile_data list"
  refresh_last_update :: "int option"
  refresh_errors :: "fetch_error list"
  refresh_successful :: nat
  refresh_failed :: nat
  refresh_total_requested :: nat

definition refresh_profiles ::
  "'f float_ops \<Rightarrow> env \<Rightarrow> write_outcome \<Rightarrow> 'f state \<Rightarrow> (py_error + 'f refresh_response) \<times> 'f state" where
  "refresh_profiles fl e wo st =
     (case update_cache_data fl e wo USERNAMES st of
        (Inl err, st') \<Rightarrow> (Inl err, st')
      | (Inr (ps, errs), st') \<Rightarrow>
          (Inr \<lparr>refresh_success = True,
                refresh_message = ''Successfully refreshed '' @ str_nat (length ps) @ '' profiles'',
                refresh_data = ps, refresh_last_update = last_update (cache st'),
                refresh_errors = errs, refresh_successful = length ps,
                refresh_failed = length errs, refresh_total_requested = length USERNAMES\<rparr>, st'))"

record 'f stats =
  total_profiles :: nat
  verified_profiles :: nat
  total_followers :: int
  total_following :: int
  total_posts :: int
  avg_followers :: 'f
  avg_posts :: 'f
  top_5_profiles :: "(string \<times> int) list"

text \<open>The two bodies of \<^verbatim>\<open>/api/stats\<close>, each with its \<^verbatim>\<open>success\<close> flag.\<close>

datatype 'f stats_response =
    NoData bool string
  | Stats bool "'f stats" "int option"

fun stats_success :: "'f stats_response \<Rightarrow> bool" where
  "stats_success (NoData b m) = b"
| "stats_success (Stats b s t) = b"

definition get_stats :: "'f float_ops \<Rightarrow> 'f cache \<Rightarrow> py_error + 'f stats_response" where
  "get_stats fl c =
     (let ps = profiles c in
      if ps = [] then Inr (NoData False ''No data available'')
      else
        (let sum_followers = sum_list (map followers ps);
             sum_following = sum_list (map following ps);
             sum_posts = sum_list (map posts ps);
             verified_count = length (filter isVerified ps)
         in case py_truediv fl sum_followers (int (length ps)) of
              Inl err \<Rightarrow> Inl err
            | Inr avg_f \<Rightarrow>
                (case py_truediv fl sum_posts (int (length ps)) of
                   Inl err \<Rightarrow> Inl err
                 | Inr avg_p \<Rightarrow>
                     Inr (Stats True
                            \<lparr>total_profiles = length ps, verified_profiles = verified_count,
                             total_followers = sum_followers, total_following = sum_following,
                             total_posts = sum_posts, avg_followers = fround fl avg_f 2,
                             avg_posts = fround fl avg_p 2,
                             top_5_profiles =
                               map (\<lambda>p. (username p, followers p)) (take 5 (sort_by_followers ps))\<rparr>
                            (last_update c)))))"

subsection \<open>The results of one run, user name by user name\<close>

text \<open>
  The results of the calls that the loop of \<^verbatim>\<open>update_cache_data\<close> makes, each with its
  user name, and the two lists a run is to draw from them: the records of the calls that
  returned one, and the errors of the others.
\<close>

fun fetch_each ::
  "'f float_ops \<Rightarrow> env \<Rightarrow> string list \<Rightarrow> world
     \<Rightarrow> (string \<times> 'f profile_data option \<times> string option) list" where
  "fetch_each fl e [] w = []"
| "fetch_each fl e (u # us) w =
     (case fetch_profile_data fl e u 0 w of (r, w') \<Rightarrow> (u, r) # fetch_each fl e us w')"

definition exactly_one :: "'a option \<times> string option \<Rightarrow> bool" where
  "exactly_one r =
     (case r of
        (Some d, None) \<Rightarrow> True
      | (None, Some msg) \<Rightarrow> msg \<noteq> []
      | _ \<Rightarrow> False)"

definition records_of :: "(string \<times> 'a option \<times> string option) list \<Rightarrow> 'a list" where
  "records_of rs = concat (map (\<lambda>(u, r). case fst r of Some d \<Rightarrow> [d] | None \<Rightarrow> []) rs)"

definition errors_of :: "(string \<times> 'a option \<times> string option) list \<Rightarrow> fetch_error list" where
  "errors_of rs =
     concat (map (\<lambda>(u, r). case r of
                     (None, Some msg) \<Rightarrow> [\<lparr>error_username = u, error_message = msg\<rparr>]
                   | _ \<Rightarrow> []) rs)"

definition descending :: "'f profile_data list \<Rightarrow> bool" where
  "descending ps = sorted_wrt (\<lambda>a b. followers a \<ge> followers b) ps"

subsection \<open>Concrete inputs\<close>

definition demo_profile :: "string \<Rightarrow> int \<Rightarrow> int \<Rightarrow> bool \<Rightarrow> profile" where
  "demo_profile u fo fe v =
     \<lparr>profile_username = u, profile_full_name = None, profile_followers = fo,
      profile_followees = fe, profile_mediacount = 1, profile_profile_pic_url = ''pic'',
      profile_is_verified = v, profile_biography = None, profile_external_url = None,
      profile_is_private = False, profile_is_business_account = False,
      profile_business_category_name = None\<rparr>"

definition demo_record :: "string \<Rightarrow> int \<Rightarrow> bool \<Rightarrow> sym_float profile_data" where
  "demo_record u fo v = profile_record sym_ops (demo_profile u fo 0 v) 0"

definition demo_cache :: "sym_float profile_data list \<Rightarrow> sym_float cache" where
  "demo_cache ps = \<lparr>profiles = ps, last_update = None, fetch_count = 1, errors = []\<rparr>"

text \<open>An environment that answers the requests from a script and whose clock stands still.\<close>

definition scripted :: "source_outcome list \<Rightarrow> int \<Rightarrow> env" where
  "scripted answers t =
     \<lparr>source = (\<lambda>k u. if k < length answers then answers ! k else OtherException ''end of script''),
      clock = (\<lambda>k. t), max_str_digits = 4300\<rparr>"

definition demo_state :: "sym_float state" where
  "demo_state = \<lparr>cache = initial_cache, disk = NoFile, world = initial_world\<rparr>"

text \<open>
  Three user names: the first does not exist, the second is found at the third attempt
  after two connection failures, the third is found at once.
\<close>

definition scenario_env :: env where
  "scenario_env =
     scripted [ProfileNotExistsException, ConnectionException ''x'', ConnectionException ''y'',
               Found (demo_profile ''b'' 5 0 False), Found (demo_profile ''c'' 9 0 True)] 0"

definition stamped :: "int \<Rightarrow> sym_float cache" where
  "stamped t = \<lparr>profiles = [demo_record ''x'' 9 True], last_update = Some t,
                 fetch_count = 1, errors = []\<rparr>"

text \<open>A cache file is in order when the profiles of its snapshot, if any, are.\<close>

definition disk_descending :: "'f disk \<Rightarrow> bool" where
  "disk_descending d = (case d of Snapshot data \<Rightarrow> descending (profiles data) | _ \<Rightarrow> True)"

section \<open>Properties\<close>

subsection \<open>One attempt of fetch_profile_data\<close>

text \<open>
  One call spelled out: it sleeps 2 seconds and asks the source once; after a connection
  failure with attempts left it sleeps 5 more seconds and calls itself.
\<close>

lemma fetch_step:
  "fetch_profile_data fl e u r w =
     (case source e (calls w) u of
        Found p \<Rightarrow>
          ((Some (profile_record fl p (clock e (ticks w))), None),
           \<lparr>calls = calls w + 1, slept = slept w + 2, ticks = ticks w + 1\<rparr>)
      | ProfileNotExistsException \<Rightarrow>
          ((None, Some (not_exists_error u)),
           \<lparr>calls = calls w + 1, slept = slept w + 2, ticks = ticks w\<rparr>)
      | ConnectionException m \<Rightarrow>
          (if r < 2
           then fetch_profile_data fl e u (r + 1)
                  \<lparr>calls = calls w + 1, slept = slept w + 7, ticks = ticks w\<rparr>
           else ((None, Some (connection_error u)),
                 \<lparr>calls = calls w + 1, slept = slept w + 2, ticks = ticks w\<rparr>))
      | OtherException m \<Rightarrow>
          ((None, Some (other_error u m)),
           \<lparr>calls = calls w + 1, slept = slept w + 2, ticks = ticks w\<rparr>))"
proof -
  have w1: "w\<lparr>calls := Suc (calls w), slept := 7 + slept w\<rparr>
              = \<lparr>calls = calls w + 1, slept = slept w + 7, ticks = ticks w\<rparr>"
    by simp
  show ?thesis
    by (subst fetch_profile_data.simps)
       (simp add: profile_from_username_def sleep_def datetime_now_def MAX_RETRIES_def
          RETRY_DELAY_def w1 split: source_outcome.splits)
qed

lemma fetch_calls_bound:
  "r \<le> 2 \<Longrightarrow>
     calls w + 1 \<le> calls (snd (fetch_profile_data fl e u r w))
     \<and> calls (snd (fetch_profile_data fl e u r w)) \<le> calls w + (3 - r)"
proof (induction "2 - r" arbitrary: r w)
  case 0
  then have "r = 2" by simp
  then show ?case
    by (subst (1 2) fetch_step) (simp split: source_outcome.splits)
next
  case (Suc n)
  then have r: "r < 2" and n: "n = 2 - (r + 1)" and le: "r + 1 \<le> 2" by simp_all
  let ?w = "\<lparr>calls = calls w + 1, slept = slept w + 7, ticks = ticks w\<rparr>"
  let ?X = "calls (snd (fetch_profile_data fl e u (r + 1) ?w))"
  have "calls ?w + 1 \<le> ?X \<and> ?X \<le> calls ?w + (3 - (r + 1))"
    using Suc.hyps(1) [OF n le] .
  moreover have "calls ?w = calls w + 1" by simp
  ultimately have ih: "calls w + 2 \<le> ?X \<and> ?X \<le> calls w + 1 + (3 - (r + 1))"
    by (simp only:) simp
  show ?case
  proof (cases "source e (calls w) u")
    case (ConnectionException m)
    then have eq: "fetch_profile_data fl e u r w = fetch_profile_data fl e u (r + 1) ?w"
      using r by (subst fetch_step) simp
    show ?thesis
      unfolding eq using ih r by linarith
  next
    case (Found p)
    with r show ?thesis by (subst (1 2) fetch_step) simp
  next
    case ProfileNotExistsException
    with r show ?thesis by (subst (1 2) fetch_step) simp
  next
    case (OtherException m)
    with r show ?thesis by (subst (1 2) fetch_step) simp
  qed
qed

subsection \<open>Retry policy\<close>

text \<open>
  Claim C2. At every attempt, the first or a later one, \<^verbatim>\<open>fetch_profile_data\<close> returns
  the not-found error after the one request that met it, without asking again, and any
  other exception as an error in the same way; a profile found is returned as a record. A
  connection failure with attempts left makes it sleep 5 seconds and run the whole
  operation again; with none left it returns the connection error. From the first attempt
  on these give: the error or the record of the second or third attempt after 2 or 3
  requests, and after a third connection failure the connection error, 3 requests made and
  2 + 5 + 2 + 5 + 2 seconds slept. No call makes more than \<open>MAX_RETRIES\<close> requests.
\<close>

theorem fetch_retry_policy:
  "(source e (calls w) u = ProfileNotExistsException \<longrightarrow>
      fetch_profile_data fl e u r w =
        ((None, Some (not_exists_error u)), \<lparr>calls = calls w + 1, slept = slept w + 2, ticks = ticks w\<rparr>))
   \<and> (source e (calls w) u = OtherException m \<longrightarrow>
      fetch_profile_data fl e u r w =
        ((None, Some (other_error u m)), \<lparr>calls = calls w + 1, slept = slept w + 2, ticks = ticks w\<rparr>))
   \<and> (source e (calls w) u = Found p \<longrightarrow>
      fetch_profile_data fl e u r w =
        ((Some (profile_record fl p (clock e (ticks w))), None), \<lparr>calls = calls w + 1, slept = slept w + 2, ticks = ticks w + 1\<rparr>))
   \<and> (source e (calls w) u = ConnectionException m1 \<longrightarrow>
      r + 1 < MAX_RETRIES \<longrightarrow>
      fetch_profile_data fl e u r w =
        fetch_profile_data fl e u (r + 1) \<lparr>calls = calls w + 1, slept = slept w + 7, ticks = ticks w\<rparr>)
   \<and> (source e (calls w) u = ConnectionException m1 \<longrightarrow>
      \<not> r + 1 < MAX_RETRIES \<longrightarrow>
      fetch_profile_data fl e u r w =
        ((None, Some (connection_error u)), \<lparr>calls = calls w + 1, slept = slept w + 2, ticks = ticks w\<rparr>))
   \<and> (source e (calls w) u = ConnectionException m1 \<longrightarrow>
      source e (calls w + 1) u = ConnectionException m2 \<longrightarrow>
      fetch_profile_data fl e u 0 w =
        fetch_profile_data fl e u 2 \<lparr>calls = calls w + 2, slept = slept w + 14, ticks = ticks w\<rparr>)
   \<and> (source e (calls w) u = ConnectionException m1 \<longrightarrow>
      source e (calls w + 1) u = ProfileNotExistsException \<longrightarrow>
      fetch_profile_data fl e u 0 w =
        ((None, Some (not_exists_error u)), \<lparr>calls = calls w + 2, slept = slept w + 9, ticks = ticks w\<rparr>))
   \<and> (source e (calls w) u = ConnectionException m1 \<longrightarrow>
      source e (calls w + 1) u = OtherException m \<longrightarrow>
      fetch_profile_data fl e u 0 w =
        ((None, Some (other_error u m)), \<lparr>calls = calls w + 2, slept = slept w + 9, ticks = ticks w\<rparr>))
   \<and> (source e (calls w) u = ConnectionException m1 \<longrightarrow>
      source e (calls w + 1) u = Found p \<longrightarrow>
      fetch_profile_data fl e u 0 w =
        ((Some (profile_record fl p (clock e (ticks w))), None), \<lparr>calls = calls w + 2, slept = slept w + 9, ticks = ticks w + 1\<rparr>))
   \<and> (source e (calls w) u = ConnectionException m1 \<longrightarrow>
      source e (calls w + 1) u = ConnectionException m2 \<longrightarrow>
      source e (calls w + 2) u = ProfileNotExistsException \<longrightarrow>
      fetch_profile_data fl e u 0 w =
        ((None, Some (not_exists_error u)), \<lparr>calls = calls w + 3, slept = slept w + 16, ticks = ticks w\<rparr>))
   \<and> (source e (calls w) u = ConnectionException m1 \<longrightarrow>
      source e (calls w + 1) u = ConnectionException m2 \<longrightarrow>
      source e (calls w + 2) u = OtherException m \<longrightarrow>
      fetch_profile_data fl e u 0 w =
        ((None, Some (other_error u m)), \<lparr>calls = calls w + 3, slept = slept w + 16, ticks = ticks w\<rparr>))
   \<and> (source e (calls w) u = ConnectionException m1 \<longrightarrow>
      source e (calls w + 1) u = ConnectionException m2 \<longrightarrow>
      source e (calls w + 2) u = Found p \<longrightarrow>
      fetch_profile_data fl e u 0 w =
        ((Some (profile_record fl p (clock e (ticks w))), None), \<lparr>calls = calls w + 3, slept = slept w + 16, ticks = ticks w + 1\<rparr>))
   \<and> (source e (calls w) u = ConnectionException m1 \<longrightarrow>
      source e (calls w + 1) u = ConnectionException m2 \<longrightarrow>
      source e (calls w + 2) u = ConnectionException m3 \<longrightarrow>
      fetch_profile_data fl e u 0 w =
        ((None, Some (connection_error u)), \<lparr>calls = calls w + 3, slept = slept w + 16, ticks = ticks w\<rparr>))
   \<and> calls w < calls (snd (fetch_profile_data fl e u 0 w))
   \<and> calls (snd (fetch_profile_data fl e u 0 w)) \<le> calls w + MAX_RETRIES
   \<and> (r < MAX_RETRIES \<longrightarrow>
      calls (snd (fetch_profile_data fl e u r w)) \<le> calls w + (MAX_RETRIES - r))"
proof -
  let ?w1 = "\<lparr>calls = calls w + 1, slept = slept w + 7, ticks = ticks w\<rparr>"
  let ?w2 = "\<lparr>calls = calls w + 2, slept = slept w + 14, ticks = ticks w\<rparr>"
  have g1: "(source e (calls w) u = ProfileNotExistsException \<longrightarrow>
      fetch_profile_data fl e u r w =
        ((None, Some (not_exists_error u)), \<lparr>calls = calls w + 1, slept = slept w + 2, ticks = ticks w\<rparr>))"
    and g2: "(source e (calls w) u = OtherException m \<longrightarrow>
      fetch_profile_data fl e u r w =
        ((None, Some (other_error u m)), \<lparr>calls = calls w + 1, slept = slept w + 2, ticks = ticks w\<rparr>))"
    and g3: "(source e (calls w) u = Found p \<longrightarrow>
      fetch_profile_data fl e u r w =
        ((Some (profile_record fl p (clock e (ticks w))), None), \<lparr>calls = calls w + 1, slept = slept w + 2, ticks = ticks w + 1\<rparr>))"
    and g5: "(source e (calls w) u = ConnectionException m1 \<longrightarrow>
      \<not> r + 1 < MAX_RETRIES \<longrightarrow>
      fetch_profile_data fl e u r w =
        ((None, Some (connection_error u)), \<lparr>calls = calls w + 1, slept = slept w + 2, ticks = ticks w\<rparr>))"
    by (subst fetch_step, simp add: MAX_RETRIES_def)+
  have g4: "(source e (calls w) u = ConnectionException m1 \<longrightarrow>
      r + 1 < MAX_RETRIES \<longrightarrow>
      fetch_profile_data fl e u r w =
        fetch_profile_data fl e u (r + 1) \<lparr>calls = calls w + 1, slept = slept w + 7, ticks = ticks w\<rparr>)"
    by (subst fetch_step) (simp add: MAX_RETRIES_def)
  have s0: "source e (calls w) u = ConnectionException m1 \<Longrightarrow>
      fetch_profile_data fl e u 0 w = fetch_profile_data fl e u 1 ?w1" for m1
    by (subst fetch_step) simp
  have s1: "source e (calls w + 1) u = ConnectionException m2 \<Longrightarrow>
      fetch_profile_data fl e u 1 ?w1 = fetch_profile_data fl e u 2 ?w2" for m2
    by (subst fetch_step) (simp add: numeral_2_eq_2 add.commute)
  have n1: "source e (calls w + 1) u = ProfileNotExistsException \<Longrightarrow>
      fetch_profile_data fl e u 1 ?w1 =
        ((None, Some (not_exists_error u)), \<lparr>calls = calls w + 2, slept = slept w + 9, ticks = ticks w\<rparr>)"
    and o1: "source e (calls w + 1) u = OtherException m \<Longrightarrow>
      fetch_profile_data fl e u 1 ?w1 =
        ((None, Some (other_error u m)), \<lparr>calls = calls w + 2, slept = slept w + 9, ticks = ticks w\<rparr>)"
    and f1: "source e (calls w + 1) u = Found p \<Longrightarrow>
      fetch_profile_data fl e u 1 ?w1 =
        ((Some (profile_record fl p (clock e (ticks w))), None),
         \<lparr>calls = calls w + 2, slept = slept w + 9, ticks = ticks w + 1\<rparr>)"
    by (subst fetch_step, simp)+
  have n2: "source e (calls w + 2) u = ProfileNotExistsException \<Longrightarrow>
      fetch_profile_data fl e u 2 ?w2 =
        ((None, Some (not_exists_error u)), \<lparr>calls = calls w + 3, slept = slept w + 16, ticks = ticks w\<rparr>)"
    and o2: "source e (calls w + 2) u = OtherException m \<Longrightarrow>
      fetch_profile_data fl e u 2 ?w2 =
        ((None, Some (other_error u m)), \<lparr>calls = calls w + 3, slept = slept w + 16, ticks = ticks w\<rparr>)"
    and f2: "source e (calls w + 2) u = Found p \<Longrightarrow>
      fetch_profile_data fl e u 2 ?w2 =
        ((Some (profile_record fl p (clock e (ticks w))), None),
         \<lparr>calls = calls w + 3, slept = slept w + 16, ticks = ticks w + 1\<rparr>)"
    and c2: "source e (calls w + 2) u = ConnectionException m3 \<Longrightarrow>
      fetch_profile_data fl e u 2 ?w2 =
        ((None, Some (connection_error u)), \<lparr>calls = calls w + 3, slept = slept w + 16, ticks = ticks w\<rparr>)"
    by (subst fetch_step, simp)+
  have h0: "(source e (calls w) u = ConnectionException m1 \<longrightarrow>
      source e (calls w + 1) u = ConnectionException m2 \<longrightarrow>
      fetch_profile_data fl e u 0 w =
        fetch_profile_data fl e u 2 \<lparr>calls = calls w + 2, slept = slept w + 14, ticks = ticks w\<rparr>)"
    and h1: "(source e (calls w) u = ConnectionException m1 \<longrightarrow>
      source e (calls w + 1) u = ProfileNotExistsException \<longrightarrow>
      fetch_profile_data fl e u 0 w =
        ((None, Some (not_exists_error u)), \<lparr>calls = calls w + 2, slept = slept w + 9, ticks = ticks w\<rparr>))"
    and h2: "(source e (calls w) u = ConnectionException m1 \<longrightarrow>
      source e (calls w + 1) u = OtherException m \<longrightarrow>
      fetch_profile_data fl e u 0 w =
        ((None, Some (other_error u m)), \<lparr>calls = calls w + 2, slept = slept w + 9, ticks = ticks w\<rparr>))"
    and h3: "(source e (calls w) u = ConnectionException m1 \<longrightarrow>
      source e (calls w + 1) u = Found p \<longrightarrow>
      fetch_profile_data fl e u 0 w =
        ((Some (profile_record fl p (clock e (ticks w))), None), \<lparr>calls = calls w + 2, slept = slept w + 9, ticks = ticks w + 1\<rparr>))"
    using s0 s1 n1 o1 f1 by simp_all
  have h4: "(source e (calls w) u = ConnectionException m1 \<longrightarrow>
      source e (calls w + 1) u = ConnectionException m2 \<longrightarrow>
      source e (calls w + 2) u = ProfileNotExistsException \<longrightarrow>
      fetch_profile_data fl e u 0 w =
        ((None, Some (not_exists_error u)), \<lparr>calls = calls w + 3, slept = slept w + 16, ticks = ticks w\<rparr>))"
    and h5: "(source e (calls w) u = ConnectionException m1 \<longrightarrow>
      source e (calls w + 1) u = ConnectionException m2 \<longrightarrow>
      source e (calls w + 2) u = OtherException m \<longrightarrow>
      fetch_profile_data fl e u 0 w =
        ((None, Some (other_error u m)), \<lparr>calls = calls w + 3, slept = slept w + 16, ticks = ticks w\<rparr>))"
    and h6: "(source e (calls w) u = ConnectionException m1 \<longrightarrow>
      source e (calls w + 1) u = ConnectionException m2 \<longrightarrow>
      source e (calls w + 2) u = Found p \<longrightarrow>
      fetch_profile_data fl e u 0 w =
        ((Some (profile_record fl p (clock e (ticks w))), None), \<lparr>calls = calls w + 3, slept = slept w + 16, ticks = ticks w + 1\<rparr>))"
    and h7: "(source e (calls w) u = ConnectionException m1 \<longrightarrow>
      source e (calls w + 1) u = ConnectionException m2 \<longrightarrow>
      source e (calls w + 2) u = ConnectionException m3 \<longrightarrow>
      fetch_profile_data fl e u 0 w =
        ((None, Some (connection_error u)), \<lparr>calls = calls w + 3, slept = slept w + 16, ticks = ticks w\<rparr>))"
    using s0 s1 n2 o2 f2 c2 by simp_all
  have c0: "calls w + 1 \<le> calls (snd (fetch_profile_data fl e u 0 w))
            \<and> calls (snd (fetch_profile_data fl e u 0 w)) \<le> calls w + 3"
    using fetch_calls_bound [where r = 0 and w = w and fl = fl and e = e and u = u] by simp
  then have b1: "calls w < calls (snd (fetch_profile_data fl e u 0 w))"
    and b2: "calls (snd (fetch_profile_data fl e u 0 w)) \<le> calls w + MAX_RETRIES"
    by (simp_all add: MAX_RETRIES_def)
  have b3: "(r < MAX_RETRIES \<longrightarrow>
      calls (snd (fetch_profile_data fl e u r w)) \<le> calls w + (MAX_RETRIES - r))"
    using fetch_calls_bound [where r = r and w = w and fl = fl and e = e and u = u]
    by (simp add: MAX_RETRIES_def)
  show ?thesis
    by (intro conjI g1 g2 g3 g4 g5 h0 h1 h2 h3 h4 h5 h6 h7 b1 b2 b3)
qed

theorem fetch_retry_policy_witness:
  "fetch_profile_data sym_ops
     (scripted [ConnectionException ''x'', ConnectionException ''y'', ConnectionException ''z''] 0)
     ''bob'' 0 initial_world
     = ((None, Some (connection_error ''bob'')), \<lparr>calls = 3, slept = 16, ticks = 0\<rparr>)
   \<and> fetch_profile_data sym_ops
     (scripted [ConnectionException ''x'', ConnectionException ''y'', Found (demo_profile ''bob'' 7 0 False)] 0)
     ''bob'' 0 initial_world
     = ((Some (demo_record ''bob'' 7 False), None), \<lparr>calls = 3, slept = 16, ticks = 1\<rparr>)
   \<and> fetch_profile_data sym_ops (scripted [ProfileNotExistsException] 0) ''bob'' 0 initial_world
     = ((None, Some (not_exists_error ''bob'')), \<lparr>calls = 1, slept = 2, ticks = 0\<rparr>)
   \<and> fetch_profile_data sym_ops (scripted [OtherException ''boom''] 0) ''bob'' 0 initial_world
     = ((None, Some (other_error ''bob'' ''boom'')), \<lparr>calls = 1, slept = 2, ticks = 0\<rparr>)
   \<and> fetch_profile_data sym_ops
     (scripted [ConnectionException ''x'', ProfileNotExistsException, ProfileNotExistsException] 0)
     ''bob'' 0 initial_world
     = ((None, Some (not_exists_error ''bob'')), \<lparr>calls = 2, slept = 9, ticks = 0\<rparr>)
   \<and> fetch_profile_data sym_ops
     (scripted [ConnectionException ''x'', ConnectionException ''y'', OtherException ''boom''] 0)
     ''bob'' 0 initial_world
     = ((None, Some (other_error ''bob'' ''boom'')), \<lparr>calls = 3, slept = 16, ticks = 0\<rparr>)
   \<and> fetch_profile_data sym_ops (scripted [ProfileNotExistsException] 0) ''bob'' 1 initial_world
     = ((None, Some (not_exists_error ''bob'')), \<lparr>calls = 1, slept = 2, ticks = 0\<rparr>)
   \<and> fetch_profile_data sym_ops (scripted [ConnectionException ''x''] 0) ''bob'' 2 initial_world
     = ((None, Some (connection_error ''bob'')), \<lparr>calls = 1, slept = 2, ticks = 0\<rparr>)"
proof -
  let ?w = initial_world
  let ?e1 = "scripted [ConnectionException ''x'', ConnectionException ''y'', ConnectionException ''z''] 0"
  let ?e2 = "scripted [ConnectionException ''x'', ConnectionException ''y'', Found (demo_profile ''bob'' 7 0 False)] 0"
  let ?e3 = "scripted [ProfileNotExistsException] 0"
  let ?e4 = "scripted [OtherException ''boom''] 0"
  let ?e5 = "scripted [ConnectionException ''x'', ProfileNotExistsException, ProfileNotExistsException] 0"
  let ?e6 = "scripted [ConnectionException ''x'', ConnectionException ''y'', OtherException ''boom''] 0"
  let ?e7 = "scripted [ConnectionException ''x''] 0"
  have x1: "source ?e1 (calls ?w) ''bob'' = ConnectionException ''x''"
    and y1: "source ?e1 (calls ?w + 1) ''bob'' = ConnectionException ''y''"
    and z1: "source ?e1 (calls ?w + 2) ''bob'' = ConnectionException ''z''"
    and x2: "source ?e2 (calls ?w) ''bob'' = ConnectionException ''x''"
    and y2: "source ?e2 (calls ?w + 1) ''bob'' = ConnectionException ''y''"
    and z2: "source ?e2 (calls ?w + 2) ''bob'' = Found (demo_profile ''bob'' 7 0 False)"
    and x3: "source ?e3 (calls ?w) ''bob'' = ProfileNotExistsException"
    and x4: "source ?e4 (calls ?w) ''bob'' = OtherException ''boom''"
    and x5: "source ?e5 (calls ?w) ''bob'' = ConnectionException ''x''"
    and y5: "source ?e5 (calls ?w + 1) ''bob'' = ProfileNotExistsException"
    and x6: "source ?e6 (calls ?w) ''bob'' = ConnectionException ''x''"
    and y6: "source ?e6 (calls ?w + 1) ''bob'' = ConnectionException ''y''"
    and z6: "source ?e6 (calls ?w + 2) ''bob'' = OtherException ''boom''"
    and x7: "source ?e7 (calls ?w) ''bob'' = ConnectionException ''x''"
    and r7: "\<not> (2::nat) + 1 < MAX_RETRIES"
    by (simp_all add: scripted_def initial_world_def MAX_RETRIES_def)
  have 1: "fetch_profile_data sym_ops ?e1 ''bob'' 0 ?w =
          ((None, Some (connection_error ''bob'')),
           \<lparr>calls = calls ?w + 3, slept = slept ?w + 16, ticks = ticks ?w\<rparr>)"
    using fetch_retry_policy [where fl = sym_ops and u = "''bob''" and w = ?w and e = ?e1
        and ?m1.0 = "''x''" and ?m2.0 = "''y''" and ?m3.0 = "''z''"] x1 y1 z1
    by blast
  have 2: "fetch_profile_data sym_ops ?e2 ''bob'' 0 ?w =
          ((Some (profile_record sym_ops (demo_profile ''bob'' 7 0 False) (clock ?e2 (ticks ?w))), None),
           \<lparr>calls = calls ?w + 3, slept = slept ?w + 16, ticks = ticks ?w + 1\<rparr>)"
    using fetch_retry_policy [where fl = sym_ops and u = "''bob''" and w = ?w and e = ?e2
        and ?m1.0 = "''x''" and ?m2.0 = "''y''" and p = "demo_profile ''bob'' 7 0 False"] x2 y2 z2
    by blast
  have 3: "fetch_profile_data sym_ops ?e3 ''bob'' 0 ?w =
          ((None, Some (not_exists_error ''bob'')),
           \<lparr>calls = calls ?w + 1, slept = slept ?w + 2, ticks = ticks ?w\<rparr>)"
    using fetch_retry_policy [where fl = sym_ops and u = "''bob''" and w = ?w and e = ?e3
        and r = 0] x3
    by blast
  have 4: "fetch_profile_data sym_ops ?e4 ''bob'' 0 ?w =
          ((None, Some (other_error ''bob'' ''boom'')),
           \<lparr>calls = calls ?w + 1, slept = slept ?w + 2, ticks = ticks ?w\<rparr>)"
    using fetch_retry_policy [where fl = sym_ops and u = "''bob''" and w = ?w and e = ?e4
        and m = "''boom''" and r = 0] x4
    by blast
  have 5: "fetch_profile_data sym_ops ?e5 ''bob'' 0 ?w =
          ((None, Some (not_exists_error ''bob'')),
           \<lparr>calls = calls ?w + 2, slept = slept ?w + 9, ticks = ticks ?w\<rparr>)"
    using fetch_retry_policy [where fl = sym_ops and u = "''bob''" and w = ?w and e = ?e5
        and ?m1.0 = "''x''"] x5 y5
    by blast
  have 6: "fetch_profile_data sym_ops ?e6 ''bob'' 0 ?w =
          ((None, Some (other_error ''bob'' ''boom'')),
           \<lparr>calls = calls ?w + 3, slept = slept ?w + 16, ticks = ticks ?w\<rparr>)"
    using fetch_retry_policy [where fl = sym_ops and u = "''bob''" and w = ?w and e = ?e6
        and ?m1.0 = "''x''" and ?m2.0 = "''y''" and m = "''boom''"] x6 y6 z6
    by blast
  have 7: "fetch_profile_data sym_ops ?e3 ''bob'' 1 ?w =
          ((None, Some (not_exists_error ''bob'')),
           \<lparr>calls = calls ?w + 1, slept = slept ?w + 2, ticks = ticks ?w\<rparr>)"
    using fetch_retry_policy [where fl = sym_ops and u = "''bob''" and w = ?w and e = ?e3
        and r = 1] x3
    by blast
  have 8: "fetch_profile_data sym_ops ?e7 ''bob'' 2 ?w =
          ((None, Some (connection_error ''bob'')),
           \<lparr>calls = calls ?w + 1, slept = slept ?w + 2, ticks = ticks ?w\<rparr>)"
    using fetch_retry_policy [where fl = sym_ops and u = "''bob''" and w = ?w and e = ?e7
        and ?m1.0 = "''x''" and r = 2] x7 r7
    by blast
  from 1 2 3 4 5 6 7 8 show ?thesis
    by (simp add: initial_world_def scripted_def demo_record_def)
qed

subsection \<open>One result per user name\<close>

lemma fetch_exactly_one: "exactly_one (fst (fetch_profile_data fl e u r w))"
proof (induction "3 - r" arbitrary: r w)
  case 0
  then have "\<not> r < 2" by simp
  then show ?case
    by (subst fetch_step)
       (simp add: exactly_one_def not_exists_error_def connection_error_def other_error_def
          split: source_outcome.splits)
next
  case (Suc n)
  then have n: "n = 3 - (r + 1)" by simp
  show ?case
    using Suc.hyps(1) [OF n]
    by (subst fetch_step)
       (simp add: exactly_one_def not_exists_error_def connection_error_def other_error_def
          split: source_outcome.splits)
qed

lemma fetch_each_names: "map fst (fetch_each fl e us w) = us"
  by (induction us arbitrary: w) (simp_all split: prod.splits)

lemma fetch_each_exactly_one: "list_all (\<lambda>r. exactly_one (snd r)) (fetch_each fl e us w)"
proof (induction us arbitrary: w)
  case Nil
  show ?case by simp
next
  case (Cons u us)
  obtain r w' where f: "fetch_profile_data fl e u 0 w = (r, w')"
    by (cases "fetch_profile_data fl e u 0 w")
  have "exactly_one r"
    using fetch_exactly_one [of fl e u 0 w] f by simp
  with f Cons.IH [of w'] show ?case by simp
qed

lemma length_records_errors:
  "list_all (\<lambda>r. exactly_one (snd r)) rs \<Longrightarrow> length (records_of rs) + length (errors_of rs) = length rs"
  by (induction rs)
     (auto simp: records_of_def errors_of_def exactly_one_def split: option.splits prod.splits)

lemma fetch_all_eq:
  "fst (fetch_all fl e us (ps, es) w) =
     (ps @ records_of (fetch_each fl e us w), es @ errors_of (fetch_each fl e us w))"
proof (induction us arbitrary: ps es w)
  case Nil
  show ?case by (simp add: records_of_def errors_of_def)
next
  case (Cons u us)
  obtain pd err w' where f: "fetch_profile_data fl e u 0 w = ((pd, err), w')"
    by (cases "fetch_profile_data fl e u 0 w") auto
  have one: "exactly_one (pd, err)"
    using fetch_exactly_one [of fl e u 0 w] f by simp
  show ?case
    using one f Cons.IH
    by (auto simp: records_of_def errors_of_def exactly_one_def split: option.splits)
qed

subsection \<open>One refresh run\<close>

lemma save_cache_eq:
  "save_cache wo c d =
     (Inr (), case wo of Written \<Rightarrow> Snapshot c | OpenFails \<Rightarrow> d | DumpFails \<Rightarrow> Malformed)"
  by (simp add: save_cache_def write_file_def split: write_outcome.splits)

lemma update_cache_data_eq:
  "update_cache_data fl e wo us st =
     (let rs = fetch_each fl e us (world st);
          w1 = snd (fetch_all fl e us ([], []) (world st));
          c = \<lparr>profiles = sort_by_followers (records_of rs),
               last_update = Some (clock e (ticks w1)),
               fetch_count = fetch_count (cache st) + 1,
               errors = errors_of rs\<rparr>
      in (Inr (sort_by_followers (records_of rs), errors_of rs),
          \<lparr>cache = c,
           disk = (case wo of Written \<Rightarrow> Snapshot c | OpenFails \<Rightarrow> disk st | DumpFails \<Rightarrow> Malformed),
           world = w1\<lparr>ticks := ticks w1 + 1\<rparr>\<rparr>))"
proof -
  obtain fetched errs w1 where f: "fetch_all fl e us ([], []) (world st) = ((fetched, errs), w1)"
    by (cases "fetch_all fl e us ([], []) (world st)") auto
  have "fst (fetch_all fl e us ([], []) (world st)) =
          (records_of (fetch_each fl e us (world st)), errors_of (fetch_each fl e us (world st)))"
    using fetch_all_eq [of fl e us "[]" "[]" "world st"] by simp
  with f have fe: "fetched = records_of (fetch_each fl e us (world st))"
    "errs = errors_of (fetch_each fl e us (world st))" by simp_all
  show ?thesis
    by (simp add: update_cache_data_def f fe save_cache_eq datetime_now_def Let_def)
qed

lemma scenario_results:
  "fetch_each sym_ops scenario_env [''a'', ''b'', ''c''] initial_world =
     [(''a'', None, Some (not_exists_error ''a'')),
      (''b'', Some (demo_record ''b'' 5 False), None),
      (''c'', Some (demo_record ''c'' 9 True), None)]"
  by (simp add: fetch_step scenario_env_def scripted_def initial_world_def demo_record_def)

text \<open>
  Claim C1. For every list of user names, the calls of one run of \<^verbatim>\<open>update_cache_data\<close>
  are one per user name, in order, and each returns a record and no error, or no record and
  an error that is not empty. The run returns the records of the first kind (sorted) and the
  errors of the second kind, each with its user name, so the number of records plus the
  number of errors is the number of user names.
\<close>

theorem refresh_one_result_per_username:
  "map fst (fetch_each fl e usernames (world st)) = usernames
   \<and> list_all (\<lambda>r. exactly_one (snd r)) (fetch_each fl e usernames (world st))
   \<and> fst (update_cache_data fl e wo usernames st) =
       Inr (sort_by_followers (records_of (fetch_each fl e usernames (world st))),
            errors_of (fetch_each fl e usernames (world st)))
   \<and> length (sort_by_followers (records_of (fetch_each fl e usernames (world st))))
       + length (errors_of (fetch_each fl e usernames (world st))) = length usernames"
proof -
  let ?rs = "fetch_each fl e usernames (world st)"
  have n: "map fst ?rs = usernames" by (rule fetch_each_names)
  have a: "list_all (\<lambda>r. exactly_one (snd r)) ?rs" by (rule fetch_each_exactly_one)
  have "length (records_of ?rs) + length (errors_of ?rs) = length ?rs"
    using a by (rule length_records_errors)
  moreover have "length ?rs = length usernames"
    using n by (metis length_map)
  ultimately have l: "length (sort_by_followers (records_of ?rs)) + length (errors_of ?rs)
      = length usernames"
    by (simp add: sort_by_followers_def)
  have u: "fst (update_cache_data fl e wo usernames st) =
       Inr (sort_by_followers (records_of ?rs), errors_of ?rs)"
    by (simp add: update_cache_data_eq Let_def)
  from n a u l show ?thesis by blast
qed

theorem refresh_one_result_per_username_witness:
  "fst (update_cache_data sym_ops scenario_env Written [''a'', ''b'', ''c''] demo_state) =
     Inr ([demo_record ''c'' 9 True, demo_record ''b'' 5 False],
          [\<lparr>error_username = ''a'', error_message = not_exists_error ''a''\<rparr>])
   \<and> length [demo_record ''c'' 9 True, demo_record ''b'' 5 False]
       + length [\<lparr>error_username = ''a'', error_message = not_exists_error ''a''\<rparr>]
       = length [''a'', ''b'', ''c'']"
proof -
  have w: "world demo_state = initial_world"
    by (simp add: demo_state_def)
  have "fst (update_cache_data sym_ops scenario_env Written [''a'', ''b'', ''c''] demo_state) =
       Inr (sort_by_followers (records_of
              [(''a'', None, Some (not_exists_error ''a'')),
               (''b'', Some (demo_record ''b'' 5 False), None),
               (''c'', Some (demo_record ''c'' 9 True), None)]),
            errors_of
              [(''a'', None, Some (not_exists_error ''a'')),
               (''b'', Some (demo_record ''b'' 5 False), None),
               (''c'', Some (demo_record ''c'' 9 True), None)])"
    using refresh_one_result_per_username
      [of sym_ops scenario_env "[''a'', ''b'', ''c'']" demo_state Written, unfolded w scenario_results]
    by blast
  then show ?thesis
    by (simp add: records_of_def errors_of_def sort_by_followers_def demo_record_def
          demo_profile_def profile_record_def)
qed

subsection \<open>Order of the records\<close>

lemma descending_sort: "descending (sort_by_followers ps)"
proof -
  have "sorted (map (\<lambda>x. - followers x) (sort_key (\<lambda>x. - followers x) ps))"
    by (rule sorted_sort_key)
  then show ?thesis
    by (simp add: descending_def sort_by_followers_def sorted_map)
qed

lemma stable_sort:
  "filter (\<lambda>p. followers p = k) (sort_by_followers ps) = filter (\<lambda>p. followers p = k) ps"
proof -
  have "filter (\<lambda>p. - followers p = - k) (sort_key (\<lambda>x. - followers x) ps)
          = filter (\<lambda>p. - followers p = - k) ps"
    by (rule sort_key_stable)
  then show ?thesis by (simp add: sort_by_followers_def)
qed

lemma descending_filter: "descending ps \<Longrightarrow> descending (filter P ps)"
  by (simp add: descending_def sorted_wrt_filter)

lemma get_profiles_descending:
  "descending (profiles c) \<Longrightarrow>
     (case fst (get_profiles fl e req c w) of
        Inl err \<Rightarrow> True
      | Inr resp \<Rightarrow> descending (profiles_data resp))"
  by (simp add: get_profiles_def Let_def descending_filter split: prod.splits sum.splits)

lemma top_5_descending:
  "(case get_stats fl c of
      Inr (Stats b s t) \<Rightarrow> sorted_wrt (\<ge>) (map snd (top_5_profiles s))
    | _ \<Rightarrow> True)"
proof -
  have "descending (take 5 (sort_by_followers (profiles c)))"
    using descending_sort [of "profiles c"]
    by (simp add: descending_def sorted_wrt_take)
  then have "sorted_wrt (\<ge>)
      (map snd (map (\<lambda>p. (username p, followers p)) (take 5 (sort_by_followers (profiles c)))))"
    by (simp add: descending_def sorted_wrt_map comp_def)
  then show ?thesis
    by (simp add: get_stats_def Let_def split: sum.splits stats_response.splits)
qed

text \<open>
  Claim C4. After every refresh run the records of the cache, which are the records the run
  returns, are in descending order of followers, and records with the same number of
  followers stand in the order in which they were fetched. The body of
  \<^verbatim>\<open>POST /api/refresh\<close> lists them in that order, and \<^verbatim>\<open>GET /api/profiles\<close>, whatever
  its filters, lists records in descending order whenever the cache holds them so; the top
  five of \<^verbatim>\<open>GET /api/stats\<close> are sorted on their own. The cache holds its records so
  from the start of the process on: it starts empty or from the cache file, and a file that
  a run has written is in order.
\<close>

theorem records_sorted_by_followers:
  fixes fl :: "'f float_ops"
  shows
  "(case update_cache_data fl e wo usernames st of
      (r, st') \<Rightarrow>
        r = Inr (profiles (cache st'), errors (cache st'))
        \<and> descending (profiles (cache st'))
        \<and> (\<forall>k. filter (\<lambda>p. followers p = k) (profiles (cache st'))
                = filter (\<lambda>p. followers p = k)
                    (records_of (fetch_each fl e usernames (world st))))
        \<and> (disk_descending (disk st) \<longrightarrow> disk_descending (disk st')))
   \<and> (case fst (refresh_profiles fl e wo st) of
         Inl err \<Rightarrow> False
       | Inr resp \<Rightarrow> descending (refresh_data resp))
   \<and> (descending (profiles c) \<longrightarrow>
        (case fst (get_profiles fl e req c w) of
           Inl err \<Rightarrow> True
         | Inr resp \<Rightarrow> descending (profiles_data resp)))
   \<and> (case get_stats fl c of
         Inr (Stats b s t) \<Rightarrow> sorted_wrt (\<ge>) (map snd (top_5_profiles s))
       | _ \<Rightarrow> True)
   \<and> descending (profiles (initial_cache :: 'f cache))
   \<and> (disk_descending d \<longrightarrow> descending (profiles (cache (snd (main_startup fl e wo d)))))"
proof -
  have u: "case update_cache_data fl e wo usernames st of
      (r, st') \<Rightarrow>
        r = Inr (profiles (cache st'), errors (cache st'))
        \<and> descending (profiles (cache st'))
        \<and> (\<forall>k. filter (\<lambda>p. followers p = k) (profiles (cache st'))
                = filter (\<lambda>p. followers p = k)
                    (records_of (fetch_each fl e usernames (world st))))
        \<and> (disk_descending (disk st) \<longrightarrow> disk_descending (disk st'))"
    by (simp add: update_cache_data_eq Let_def descending_sort stable_sort disk_descending_def
          split: write_outcome.splits)
  have r: "case fst (refresh_profiles fl e wo st) of
         Inl err \<Rightarrow> False
       | Inr resp \<Rightarrow> descending (refresh_data resp)"
    by (simp add: refresh_profiles_def update_cache_data_eq Let_def descending_sort)
  have g: "descending (profiles c) \<longrightarrow>
        (case fst (get_profiles fl e req c w) of
           Inl err \<Rightarrow> True
         | Inr resp \<Rightarrow> descending (profiles_data resp))"
    using get_profiles_descending by blast
  have i: "descending (profiles (initial_cache :: 'f cache))"
    by (simp add: initial_cache_def descending_def)
  have m: "disk_descending d \<longrightarrow> descending (profiles (cache (snd (main_startup fl e wo d))))"
  proof
    assume d: "disk_descending d"
    show "descending (profiles (cache (snd (main_startup fl e wo d))))"
    proof (cases "fst (load_cache e d initial_world)")
      case None
      then show ?thesis
        by (cases "load_cache e d initial_world")
           (simp add: main_startup_def update_cache_data_eq Let_def descending_sort)
    next
      case (Some data)
      then have "d = Snapshot data"
        by (auto simp: load_cache_def split: disk.splits option.splits prod.splits if_splits)
      with d have "descending (profiles data)" by (simp add: disk_descending_def)
      with Some show ?thesis
        by (cases "load_cache e d initial_world") (simp add: main_startup_def)
    qed
  qed
  have t: "case get_stats fl c of
         Inr (Stats b s t) \<Rightarrow> sorted_wrt (\<ge>) (map snd (top_5_profiles s))
       | _ \<Rightarrow> True"
    by (rule top_5_descending)
  from u r g t i m show ?thesis by blast
qed

theorem records_sorted_by_followers_witness:
  "descending (profiles (cache (snd
      (update_cache_data sym_ops scenario_env Written [''a'', ''b'', ''c''] demo_state))))
   \<and> map username (profiles (cache (snd
      (update_cache_data sym_ops scenario_env Written [''a'', ''b'', ''c''] demo_state))))
       = [''c'', ''b'']
   \<and> disk_descending (disk (snd
      (update_cache_data sym_ops scenario_env Written [''a'', ''b'', ''c''] demo_state)))
   \<and> (case fst (get_profiles sym_ops scenario_env \<lparr>args = [''min_followers'' \<mapsto> ''6'']\<rparr>
                 (demo_cache [demo_record ''x'' 9 True, demo_record ''y'' 7 False,
                              demo_record ''z'' 5 True]) initial_world) of
         Inl err \<Rightarrow> False
       | Inr resp \<Rightarrow>
           descending (profiles_data resp) \<and> map username (profiles_data resp) = [''x'', ''y''])
   \<and> descending (profiles (cache (snd (main_startup sym_ops scenario_env Written
        (Snapshot ((demo_cache [demo_record ''x'' 9 True, demo_record ''y'' 7 False])
           \<lparr>last_update := Some 0\<rparr>))))))
   \<and> map username (profiles (cache (snd (main_startup sym_ops scenario_env Written
        (Snapshot ((demo_cache [demo_record ''x'' 9 True, demo_record ''y'' 7 False])
           \<lparr>last_update := Some 0\<rparr>)))))) = [''x'', ''y'']"
proof -
  let ?c = "demo_cache [demo_record ''x'' 9 True, demo_record ''y'' 7 False, demo_record ''z'' 5 True]"
  let ?d = "Snapshot ((demo_cache [demo_record ''x'' 9 True, demo_record ''y'' 7 False])
                        \<lparr>last_update := Some 0\<rparr>)"
  let ?req = "\<lparr>args = [''min_followers'' \<mapsto> ''6'']\<rparr>"
  note t = records_sorted_by_followers
    [where fl = sym_ops and e = scenario_env and wo = Written and usernames = "[''a'', ''b'', ''c'']"
       and st = demo_state and c = ?c and req = ?req and w = initial_world and d = ?d]
  have dc: "descending (profiles ?c)"
    by (simp add: demo_cache_def descending_def demo_record_def profile_record_def demo_profile_def)
  have ds: "disk_descending (disk demo_state)"
    by (simp add: demo_state_def disk_descending_def)
  have dd: "disk_descending ?d"
    by (simp add: demo_cache_def disk_descending_def descending_def demo_record_def
          profile_record_def demo_profile_def)
  have w: "world demo_state = initial_world"
    by (simp add: demo_state_def)
  have p: "profiles (cache (snd
      (update_cache_data sym_ops scenario_env Written [''a'', ''b'', ''c''] demo_state)))
      = [demo_record ''c'' 9 True, demo_record ''b'' 5 False]"
    unfolding update_cache_data_eq Let_def w scenario_results
    by (simp add: records_of_def sort_by_followers_def demo_record_def demo_profile_def
          profile_record_def)
  have 1: "descending (profiles (cache (snd
      (update_cache_data sym_ops scenario_env Written [''a'', ''b'', ''c''] demo_state))))"
    and 2: "disk_descending (disk (snd
      (update_cache_data sym_ops scenario_env Written [''a'', ''b'', ''c''] demo_state)))"
    using t ds by (auto split: prod.splits)
  have 3: "case fst (get_profiles sym_ops scenario_env ?req ?c initial_world) of
         Inl err \<Rightarrow> True
       | Inr resp \<Rightarrow> descending (profiles_data resp)"
    using t dc by blast
  have m: "min_followers scenario_env ?req = Inr 6"
    by (simp add: min_followers_def py_int_def strip_def is_space_def parse_unsigned_def
          digit_of_def too_many_digits_def Let_def)
  have v: "\<not> verified_only ?req"
    by (simp add: verified_only_def lower_def)
  have 4: "map_sum id (map username \<circ> profiles_data)
             (fst (get_profiles sym_ops scenario_env ?req ?c initial_world)) = Inr [''x'', ''y'']"
    by (simp add: get_profiles_def m v Let_def demo_cache_def demo_record_def profile_record_def
          demo_profile_def split: prod.splits)
  have 5: "descending (profiles (cache (snd (main_startup sym_ops scenario_env Written ?d))))"
    using t dd by blast
  from 3 4 have 6: "case fst (get_profiles sym_ops scenario_env ?req ?c initial_world) of
         Inl err \<Rightarrow> False
       | Inr resp \<Rightarrow>
           descending (profiles_data resp) \<and> map username (profiles_data resp) = [''x'', ''y'']"
    by (cases "fst (get_profiles sym_ops scenario_env ?req ?c initial_world)") simp_all
  have 7: "map username (profiles (cache (snd (main_startup sym_ops scenario_env Written ?d))))
      = [''x'', ''y'']"
    by (simp add: main_startup_def load_cache_def datetime_now_def scenario_env_def scripted_def
          initial_world_def timedelta_minutes_def CACHE_DURATION_MINUTES_def demo_cache_def
          demo_record_def profile_record_def demo_profile_def)
  from 1 2 5 6 7 p show ?thesis
    by (simp add: demo_record_def profile_record_def demo_profile_def)
qed

subsection \<open>Failure of the write\<close>

text \<open>
  Claim C8. \<^verbatim>\<open>save_cache\<close> returns normally whatever the file system does. A refresh run
  whose write fails returns the same records and errors, leaves the same cache in memory
  and the same world as the run whose write succeeds; only the file differs: unchanged when
  \<^verbatim>\<open>open\<close> fails, truncated when \<^verbatim>\<open>json.dump\<close> fails. The refresh endpoint answers
  with success in each case.
\<close>

theorem save_failure_is_swallowed:
  fixes fl :: "'f float_ops"
  shows
  "fst (save_cache wo c d) = Inr ()
   \<and> fst (update_cache_data fl e wo usernames st) = fst (update_cache_data fl e Written usernames st)
   \<and> fst (update_cache_data fl e wo usernames st) =
       Inr (profiles (cache (snd (update_cache_data fl e wo usernames st))),
            errors (cache (snd (update_cache_data fl e wo usernames st))))
   \<and> cache (snd (update_cache_data fl e wo usernames st))
       = cache (snd (update_cache_data fl e Written usernames st))
   \<and> world (snd (update_cache_data fl e wo usernames st))
       = world (snd (update_cache_data fl e Written usernames st))
   \<and> disk (snd (update_cache_data fl e wo usernames st)) =
       (case wo of
          Written \<Rightarrow> Snapshot (cache (snd (update_cache_data fl e wo usernames st)))
        | OpenFails \<Rightarrow> disk st
        | DumpFails \<Rightarrow> Malformed)
   \<and> (\<exists>resp. fst (refresh_profiles fl e wo st) = Inr resp \<and> refresh_success resp)"
  by (simp add: save_cache_eq update_cache_data_eq refresh_profiles_def Let_def
        split: write_outcome.splits)

theorem save_failure_is_swallowed_witness:
  "fst (update_cache_data sym_ops scenario_env OpenFails [''a'', ''b'', ''c''] demo_state) =
     Inr ([demo_record ''c'' 9 True, demo_record ''b'' 5 False],
          [\<lparr>error_username = ''a'', error_message = not_exists_error ''a''\<rparr>])
   \<and> profiles (cache (snd
        (update_cache_data sym_ops scenario_env DumpFails [''a'', ''b'', ''c''] demo_state)))
       = [demo_record ''c'' 9 True, demo_record ''b'' 5 False]
   \<and> disk (snd (update_cache_data sym_ops scenario_env OpenFails [''a'', ''b'', ''c''] demo_state))
       = NoFile
   \<and> disk (snd (update_cache_data sym_ops scenario_env DumpFails [''a'', ''b'', ''c''] demo_state))
       = Malformed"
proof -
  have w: "world demo_state = initial_world"
    by (simp add: demo_state_def)
  have p: "fst (update_cache_data sym_ops scenario_env Written [''a'', ''b'', ''c''] demo_state) =
     Inr ([demo_record ''c'' 9 True, demo_record ''b'' 5 False],
          [\<lparr>error_username = ''a'', error_message = not_exists_error ''a''\<rparr>])"
    unfolding update_cache_data_eq Let_def w scenario_results
    by (simp add: records_of_def errors_of_def sort_by_followers_def demo_record_def
          demo_profile_def profile_record_def)
  note o = save_failure_is_swallowed
    [where fl = sym_ops and e = scenario_env and wo = OpenFails
       and usernames = "[''a'', ''b'', ''c'']" and st = demo_state and c = "stamped 0" and d = NoFile]
  note d = save_failure_is_swallowed
    [where fl = sym_ops and e = scenario_env and wo = DumpFails
       and usernames = "[''a'', ''b'', ''c'']" and st = demo_state and c = "stamped 0" and d = NoFile]
  have 1: "fst (update_cache_data sym_ops scenario_env OpenFails [''a'', ''b'', ''c''] demo_state) =
     Inr ([demo_record ''c'' 9 True, demo_record ''b'' 5 False],
          [\<lparr>error_username = ''a'', error_message = not_exists_error ''a''\<rparr>])"
    using o p by simp
  have "fst (update_cache_data sym_ops scenario_env DumpFails [''a'', ''b'', ''c''] demo_state) =
     Inr ([demo_record ''c'' 9 True, demo_record ''b'' 5 False],
          [\<lparr>error_username = ''a'', error_message = not_exists_error ''a''\<rparr>])"
    using d p by simp
  with d have 2: "profiles (cache (snd
        (update_cache_data sym_ops scenario_env DumpFails [''a'', ''b'', ''c''] demo_state)))
       = [demo_record ''c'' 9 True, demo_record ''b'' 5 False]"
    by simp
  have 3: "disk (snd (update_cache_data sym_ops scenario_env OpenFails [''a'', ''b'', ''c''] demo_state))
       = NoFile"
    using o by (simp add: demo_state_def)
  have 4: "disk (snd (update_cache_data sym_ops scenario_env DumpFails [''a'', ''b'', ''c''] demo_state))
       = Malformed"
    using d by simp
  from 1 2 3 4 show ?thesis by blast
qed

subsection \<open>Freshness of the cache file\<close>

text \<open>
  Claim C3. \<^verbatim>\<open>load_cache\<close> returns a snapshot exactly when the file holds it, it has a
  time stamp, and now minus the stamp is strictly less than 30 minutes (so a stamp later
  than now counts as fresh). A snapshot 29 minutes old is returned; one of 30 minutes or
  more is not. When \<^verbatim>\<open>load_cache\<close> returns nothing the process starts with a refresh run
  on the empty cache; when it returns a snapshot, the snapshot becomes the cache and no
  profile is requested.
\<close>

theorem load_cache_freshness:
  "(fst (load_cache e d w) = Some data \<longleftrightarrow>
      d = Snapshot data
      \<and> (\<exists>t. last_update data = Some t \<and> clock e (ticks w) - t < timedelta_minutes 30))
   \<and> (last_update data = Some t \<longrightarrow> clock e (ticks w) - t = timedelta_minutes 29 \<longrightarrow>
        fst (load_cache e (Snapshot data) w) = Some data)
   \<and> (last_update data = Some t \<longrightarrow> clock e (ticks w) - t \<ge> timedelta_minutes 30 \<longrightarrow>
        fst (load_cache e (Snapshot data) w) = None)
   \<and> (fst (load_cache e d initial_world) = None \<longrightarrow>
        main_startup fl e wo d =
          (case update_cache_data fl e wo USERNAMES
                  \<lparr>cache = initial_cache, disk = d, world = snd (load_cache e d initial_world)\<rparr> of
             (Inl err, st) \<Rightarrow> (Inl err, st)
           | (Inr r, st) \<Rightarrow> (Inr (), st)))
   \<and> (fst (load_cache e d initial_world) = Some data \<longrightarrow>
        cache (snd (main_startup fl e wo d)) = data \<and> calls (world (snd (main_startup fl e wo d))) = 0)"
proof -
  have a: "fst (load_cache e d w) = Some data \<longleftrightarrow>
      d = Snapshot data
      \<and> (\<exists>t. last_update data = Some t \<and> clock e (ticks w) - t < timedelta_minutes 30)"
    by (auto simp: load_cache_def datetime_now_def CACHE_DURATION_MINUTES_def
          split: disk.splits option.splits)
  have b: "last_update data = Some t \<longrightarrow> clock e (ticks w) - t = timedelta_minutes 29 \<longrightarrow>
        fst (load_cache e (Snapshot data) w) = Some data"
    by (simp add: load_cache_def datetime_now_def CACHE_DURATION_MINUTES_def timedelta_minutes_def)
  have c: "last_update data = Some t \<longrightarrow> clock e (ticks w) - t \<ge> timedelta_minutes 30 \<longrightarrow>
        fst (load_cache e (Snapshot data) w) = None"
    by (simp add: load_cache_def datetime_now_def CACHE_DURATION_MINUTES_def timedelta_minutes_def)
  have s: "fst (load_cache e d initial_world) = None \<longrightarrow>
        main_startup fl e wo d =
          (case update_cache_data fl e wo USERNAMES
                  \<lparr>cache = initial_cache, disk = d, world = snd (load_cache e d initial_world)\<rparr> of
             (Inl err, st) \<Rightarrow> (Inl err, st)
           | (Inr r, st) \<Rightarrow> (Inr (), st))"
    by (cases "load_cache e d initial_world") (simp add: main_startup_def)
  have l: "fst (load_cache e d initial_world) = Some data \<longrightarrow>
        cache (snd (main_startup fl e wo d)) = data \<and> calls (world (snd (main_startup fl e wo d))) = 0"
    by (cases "load_cache e d initial_world")
       (auto simp: main_startup_def load_cache_def datetime_now_def get_cache_age_minutes_def
          initial_world_def split: disk.splits option.splits if_splits)
  from a b c s l show ?thesis by blast
qed

theorem load_cache_freshness_witness:
  "fst (load_cache (scripted [] (timedelta_minutes 29)) (Snapshot (stamped 0)) initial_world)
     = Some (stamped 0)
   \<and> fst (load_cache (scripted [] (timedelta_minutes 30)) (Snapshot (stamped 0)) initial_world)
     = None
   \<and> fst (load_cache (scripted [] (timedelta_minutes 31)) (Snapshot (stamped 0)) initial_world)
     = None
   \<and> cache (snd (main_startup sym_ops (scripted [] (timedelta_minutes 29)) Written
        (Snapshot (stamped 0)))) = stamped 0
   \<and> main_startup sym_ops (scripted [] (timedelta_minutes 31)) Written (Snapshot (stamped 0)) =
        (case update_cache_data sym_ops (scripted [] (timedelta_minutes 31)) Written USERNAMES
                \<lparr>cache = initial_cache, disk = Snapshot (stamped 0),
                   world = snd (load_cache (scripted [] (timedelta_minutes 31))
                                  (Snapshot (stamped 0)) initial_world)\<rparr> of
           (Inl err, st) \<Rightarrow> (Inl err, st)
         | (Inr r, st) \<Rightarrow> (Inr (), st))"
proof -
  let ?d = "Snapshot (stamped 0)"
  have lu: "last_update (stamped 0) = Some 0"
    by (simp add: stamped_def)
  have c29: "clock (scripted [] (timedelta_minutes 29)) (ticks initial_world) - 0 = timedelta_minutes 29"
    and c30: "clock (scripted [] (timedelta_minutes 30)) (ticks initial_world) - 0 \<ge> timedelta_minutes 30"
    and c31: "clock (scripted [] (timedelta_minutes 31)) (ticks initial_world) - 0 \<ge> timedelta_minutes 30"
    by (simp_all add: scripted_def timedelta_minutes_def)
  note t29 = load_cache_freshness
    [where e = "scripted [] (timedelta_minutes 29)" and d = ?d and w = initial_world
       and data = "stamped 0" and t = 0 and fl = sym_ops and wo = Written]
  note t30 = load_cache_freshness
    [where e = "scripted [] (timedelta_minutes 30)" and d = ?d and w = initial_world
       and data = "stamped 0" and t = 0 and fl = sym_ops and wo = Written]
  note t31 = load_cache_freshness
    [where e = "scripted [] (timedelta_minutes 31)" and d = ?d and w = initial_world
       and data = "stamped 0" and t = 0 and fl = sym_ops and wo = Written]
  have 1: "fst (load_cache (scripted [] (timedelta_minutes 29)) ?d initial_world) = Some (stamped 0)"
    using t29 lu c29 by blast
  have 2: "fst (load_cache (scripted [] (timedelta_minutes 30)) ?d initial_world) = None"
    using t30 lu c30 by blast
  have 3: "fst (load_cache (scripted [] (timedelta_minutes 31)) ?d initial_world) = None"
    using t31 lu c31 by blast
  have 4: "cache (snd (main_startup sym_ops (scripted [] (timedelta_minutes 29)) Written ?d))
      = stamped 0"
    using t29 1 by blast
  have 5: "main_startup sym_ops (scripted [] (timedelta_minutes 31)) Written ?d =
        (case update_cache_data sym_ops (scripted [] (timedelta_minutes 31)) Written USERNAMES
                \<lparr>cache = initial_cache, disk = ?d,
                   world = snd (load_cache (scripted [] (timedelta_minutes 31)) ?d initial_world)\<rparr> of
           (Inl err, st) \<Rightarrow> (Inl err, st)
         | (Inr r, st) \<Rightarrow> (Inr (), st))"
    using t31 3 by blast
  from 1 2 3 4 5 show ?thesis by blast
qed

subsection \<open>Engagement ratio\<close>

text \<open>
  Claim C6. With no followers the \<^verbatim>\<open>try\<close> block of \<^verbatim>\<open>calculate_engagement_rate\<close>
  returns \<^verbatim>\<open>0.0\<close> without raising (the guard comes before the division), and so does
  the function. With followers the function returns the quotient of following by followers,
  times 100, rounded to 2 decimals, those three being the float operations of the source in
  that order; should the quotient be out of the range of floats, it returns \<^verbatim>\<open>0.0\<close>.
  The record of a profile carries that value.
\<close>

theorem engagement_rate_guarded:
  "(profile_followers p = 0 \<longrightarrow>
      engagement_try fl p = Inr (fzero fl) \<and> calculate_engagement_rate fl p = fzero fl)
   \<and> (profile_followers p \<noteq> 0 \<longrightarrow>
        calculate_engagement_rate fl p =
          (case ftruediv fl (profile_followees p) (profile_followers p) of
             Some q \<Rightarrow> fround fl (fmul fl q 100) 2
           | None \<Rightarrow> fzero fl))
   \<and> engagementRate (profile_record fl p now) = calculate_engagement_rate fl p"
  by (simp add: calculate_engagement_rate_def engagement_try_def py_truediv_def
        profile_record_def split: option.splits)

theorem engagement_rate_guarded_witness:
  "calculate_engagement_rate sym_ops (demo_profile ''a'' 0 50 False) = FZero
   \<and> engagement_try sym_ops (demo_profile ''a'' 0 50 False) = Inr FZero
   \<and> calculate_engagement_rate sym_ops (demo_profile ''b'' 200 50 False)
       = FRound (FMul (FTrueDiv 50 200) 100) 2"
  using engagement_rate_guarded [of "demo_profile ''a'' 0 50 False" sym_ops 0]
    engagement_rate_guarded [of "demo_profile ''b'' 200 50 False" sym_ops 0]
  by (simp add: demo_profile_def sym_ops_def)

subsection \<open>GET /api/stats\<close>

text \<open>
  Claim C7. When the cache holds no profiles, \<^verbatim>\<open>get_stats\<close> returns the body whose
  \<^verbatim>\<open>success\<close> is false, before any division. In no state of the cache does it raise
  ZeroDivisionError: the two averages divide by the number of profiles, which is not zero
  where they are computed. A body it returns has \<^verbatim>\<open>success\<close> true exactly when the cache
  holds a profile.
\<close>

theorem stats_on_empty_cache:
  "(profiles c = [] \<longrightarrow> get_stats fl c = Inr (NoData False ''No data available''))
   \<and> get_stats fl c \<noteq> Inl ZeroDivisionError
   \<and> (\<forall>resp. get_stats fl c = Inr resp \<longrightarrow> (stats_success resp \<longleftrightarrow> profiles c \<noteq> []))"
  by (auto simp: get_stats_def py_truediv_def Let_def split: option.splits sum.splits)

theorem stats_on_empty_cache_witness:
  "get_stats sym_ops initial_cache = Inr (NoData False ''No data available'')
   \<and> \<not> stats_success (NoData False ''No data available'' :: sym_float stats_response)
   \<and> (\<exists>resp. get_stats sym_ops (stamped 0) = Inr resp \<and> stats_success resp)"
proof -
  have e: "profiles (initial_cache :: sym_float cache) = []"
    by (simp add: initial_cache_def)
  have 1: "get_stats sym_ops initial_cache = Inr (NoData False ''No data available'')"
    using stats_on_empty_cache [of initial_cache sym_ops] e by blast
  have n: "profiles (stamped 0) \<noteq> []"
    by (simp add: stamped_def)
  have "\<exists>resp. get_stats sym_ops (stamped 0) = Inr resp"
    by (simp add: get_stats_def py_truediv_def sym_ops_def stamped_def Let_def)
  with n have 2: "\<exists>resp. get_stats sym_ops (stamped 0) = Inr resp \<and> stats_success resp"
    using stats_on_empty_cache [of "stamped 0" sym_ops] by blast
  from 1 2 show ?thesis by simp
qed

subsection \<open>GET /api/profiles\<close>

lemma py_int_million: "py_int lim ''1000000'' = Inr 1000000"
  by (simp add: py_int_def strip_def is_space_def parse_unsigned_def digit_of_def
        too_many_digits_def Let_def)

text \<open>
  White space as \<^verbatim>\<open>int\<close> sees it, and the bound on the digits: a separator before the
  number raises, a no-break space does not, and a number of more digits than a bound above
  640 raises.
\<close>

lemma py_int_white_space:
  "py_int lim (CHR 0x1C # ''-5'') = Inl ValueError
   \<and> py_int lim (CHR 0xA0 # ''12'') = Inr 12
   \<and> py_int lim ('' 12 '' @ [CHR 0x85]) = Inr 12"
  by (simp add: py_int_def strip_def is_space_def parse_unsigned_def digit_of_def
        too_many_digits_def Let_def)

lemma get_profiles_separator_raises:
  "get_profiles fl e \<lparr>args = [''min_followers'' \<mapsto> CHR 0x1C # ''-5'']\<rparr> c w = (Inl ValueError, w)"
  by (simp add: get_profiles_def min_followers_def py_int_def strip_def is_space_def
        parse_unsigned_def digit_of_def too_many_digits_def Let_def)

lemma py_int_digit_limit:
  "640 \<le> lim \<Longrightarrow> lim < length (filter (\<lambda>c. digit_of c \<noteq> None) (strip s)) \<Longrightarrow>
     py_int lim s = Inl ValueError"
  by (simp add: py_int_def too_many_digits_def Let_def split: option.splits)

lemma get_profiles_data:
  "min_followers e req = Inr m \<Longrightarrow>
   map_sum id profiles_data (fst (get_profiles fl e req c w)) =
     Inr (let ps1 = (if verified_only req then filter isVerified (profiles c) else profiles c)
          in if m > 0 then filter (\<lambda>p. followers p \<ge> m) ps1 else ps1)"
  by (simp add: get_profiles_def Let_def split: prod.splits)

lemma map_sum_usernames:
  "map_sum id profiles_data x = Inr ps \<Longrightarrow>
     map_sum id (map username \<circ> profiles_data) x = Inr (map username ps)"
  by (cases x) auto

text \<open>
  Claim C9. With \<^verbatim>\<open>min_followers=1000000\<close> the handler answers with success, and the
  records of the answer are those of the cache, in their order, that have at least
  1,000,000 followers and, when \<^verbatim>\<open>verified=true\<close> is asked for, are verified: none with
  fewer followers is returned and none that qualifies is left out.
\<close>

theorem min_followers_million:
  "args req ''min_followers'' = Some ''1000000'' \<longrightarrow>
     map_sum id profiles_data (fst (get_profiles fl e req c w)) =
       Inr (filter (\<lambda>p. followers p \<ge> 1000000 \<and> (verified_only req \<longrightarrow> isVerified p)) (profiles c))
     \<and> (\<forall>resp. fst (get_profiles fl e req c w) = Inr resp \<longrightarrow>
           profiles_success resp
           \<and> profiles_total resp = length (profiles_data resp)
           \<and> (\<forall>p \<in> set (profiles_data resp). followers p \<ge> 1000000)
           \<and> (\<forall>p \<in> set (profiles c).
                 followers p \<ge> 1000000 \<and> (verified_only req \<longrightarrow> isVerified p)
                 \<longrightarrow> p \<in> set (profiles_data resp)))"
proof
  assume a: "args req ''min_followers'' = Some ''1000000''"
  then have m: "min_followers e req = Inr 1000000"
    by (simp add: min_followers_def py_int_million)
  have 1: "map_sum id profiles_data (fst (get_profiles fl e req c w)) =
       Inr (filter (\<lambda>p. followers p \<ge> 1000000 \<and> (verified_only req \<longrightarrow> isVerified p)) (profiles c))"
    using get_profiles_data [OF m, where fl = fl and c = c and w = w]
    by (simp add: Let_def conj_commute)
  have 2: "\<forall>resp. fst (get_profiles fl e req c w) = Inr resp \<longrightarrow>
           profiles_success resp
           \<and> profiles_total resp = length (profiles_data resp)
           \<and> (\<forall>p \<in> set (profiles_data resp). followers p \<ge> 1000000)
           \<and> (\<forall>p \<in> set (profiles c).
                 followers p \<ge> 1000000 \<and> (verified_only req \<longrightarrow> isVerified p)
                 \<longrightarrow> p \<in> set (profiles_data resp))"
    by (auto simp: get_profiles_def m Let_def split: prod.splits)
  from 1 2 show "map_sum id profiles_data (fst (get_profiles fl e req c w)) =
       Inr (filter (\<lambda>p. followers p \<ge> 1000000 \<and> (verified_only req \<longrightarrow> isVerified p)) (profiles c))
     \<and> (\<forall>resp. fst (get_profiles fl e req c w) = Inr resp \<longrightarrow>
           profiles_success resp
           \<and> profiles_total resp = length (profiles_data resp)
           \<and> (\<forall>p \<in> set (profiles_data resp). followers p \<ge> 1000000)
           \<and> (\<forall>p \<in> set (profiles c).
                 followers p \<ge> 1000000 \<and> (verified_only req \<longrightarrow> isVerified p)
                 \<longrightarrow> p \<in> set (profiles_data resp)))"
    by blast
qed

theorem min_followers_million_witness:
  "map_sum id (map username \<circ> profiles_data)
     (fst (get_profiles sym_ops scenario_env \<lparr>args = [''min_followers'' \<mapsto> ''1000000'']\<rparr>
        (demo_cache [demo_record ''x'' 2000000 True, demo_record ''y'' 1000000 False,
                     demo_record ''z'' 999999 True]) initial_world))
     = Inr [''x'', ''y'']
   \<and> map_sum id (map username \<circ> profiles_data)
     (fst (get_profiles sym_ops scenario_env
        \<lparr>args = [''min_followers'' \<mapsto> ''1000000'', ''verified'' \<mapsto> ''true'']\<rparr>
        (demo_cache [demo_record ''x'' 2000000 True, demo_record ''y'' 1000000 False,
                     demo_record ''z'' 999999 True]) initial_world))
     = Inr [''x'']"
proof -
  let ?c = "demo_cache [demo_record ''x'' 2000000 True, demo_record ''y'' 1000000 False,
                        demo_record ''z'' 999999 True]"
  let ?r1 = "\<lparr>args = [''min_followers'' \<mapsto> ''1000000'']\<rparr>"
  let ?r2 = "\<lparr>args = [''min_followers'' \<mapsto> ''1000000'', ''verified'' \<mapsto> ''true'']\<rparr>"
  have a1: "args ?r1 ''min_followers'' = Some ''1000000''"
    and a2: "args ?r2 ''min_followers'' = Some ''1000000''"
    by simp_all
  have v1: "\<not> verified_only ?r1" and v2: "verified_only ?r2"
    by (simp_all add: verified_only_def lower_def lower_char_def)
  have "map_sum id profiles_data (fst (get_profiles sym_ops scenario_env ?r1 ?c initial_world)) =
       Inr (filter (\<lambda>p. followers p \<ge> 1000000 \<and> (verified_only ?r1 \<longrightarrow> isVerified p)) (profiles ?c))"
    using min_followers_million
      [where req = ?r1 and fl = sym_ops and e = scenario_env and c = ?c and w = initial_world] a1
    by blast
  then have 1: "map_sum id (map username \<circ> profiles_data)
      (fst (get_profiles sym_ops scenario_env ?r1 ?c initial_world)) =
       Inr (map username
         (filter (\<lambda>p. followers p \<ge> 1000000 \<and> (verified_only ?r1 \<longrightarrow> isVerified p)) (profiles ?c)))"
    by (rule map_sum_usernames)
  have "map_sum id profiles_data (fst (get_profiles sym_ops scenario_env ?r2 ?c initial_world)) =
       Inr (filter (\<lambda>p. followers p \<ge> 1000000 \<and> (verified_only ?r2 \<longrightarrow> isVerified p)) (profiles ?c))"
    using min_followers_million
      [where req = ?r2 and fl = sym_ops and e = scenario_env and c = ?c and w = initial_world] a2
    by blast
  then have 2: "map_sum id (map username \<circ> profiles_data)
      (fst (get_profiles sym_ops scenario_env ?r2 ?c initial_world)) =
       Inr (map username
         (filter (\<lambda>p. followers p \<ge> 1000000 \<and> (verified_only ?r2 \<longrightarrow> isVerified p)) (profiles ?c)))"
    by (rule map_sum_usernames)
  have f1: "map username
         (filter (\<lambda>p. followers p \<ge> 1000000 \<and> (verified_only ?r1 \<longrightarrow> isVerified p)) (profiles ?c))
         = [''x'', ''y'']"
    using v1 by (simp add: demo_cache_def demo_record_def profile_record_def demo_profile_def)
  have f2: "map username
         (filter (\<lambda>p. followers p \<ge> 1000000 \<and> (verified_only ?r2 \<longrightarrow> isVerified p)) (profiles ?c))
         = [''x'']"
    using v2 by (simp add: demo_cache_def demo_record_def profile_record_def demo_profile_def)
  from 1 2 show ?thesis
    unfolding f1 f2 by (rule conjI)
qed

text \<open>
  Claim C10. When \<^verbatim>\<open>min_followers\<close> is an integer less than or equal to 0, negative ones
  included, the filter on followers is skipped: the answer lists all the records of the
  cache, or all the verified ones under \<^verbatim>\<open>verified=true\<close>. The parameter left out
  counts as 0; a parameter given is read by \<^verbatim>\<open>int\<close> under the interpreter's bound on
  digits, and counts as an integer only where \<^verbatim>\<open>int\<close> returns one.
\<close>

theorem non_positive_min_followers_skips_filter:
  "(min_followers e req = Inr m \<longrightarrow> m \<le> 0 \<longrightarrow>
      map_sum id profiles_data (fst (get_profiles fl e req c w)) =
        Inr (if verified_only req then filter isVerified (profiles c) else profiles c))
   \<and> (args req ''min_followers'' = None \<longrightarrow> min_followers e req = Inr 0)
   \<and> (args req ''min_followers'' = Some s \<longrightarrow> min_followers e req = py_int (max_str_digits e) s)"
proof -
  have 1: "min_followers e req = Inr m \<longrightarrow> m \<le> 0 \<longrightarrow>
      map_sum id profiles_data (fst (get_profiles fl e req c w)) =
        Inr (if verified_only req then filter isVerified (profiles c) else profiles c)"
    using get_profiles_data [where req = req and m = m and fl = fl and e = e and c = c and w = w]
    by (simp add: Let_def)
  have 2: "args req ''min_followers'' = None \<longrightarrow> min_followers e req = Inr 0"
    and 3: "args req ''min_followers'' = Some s \<longrightarrow>
              min_followers e req = py_int (max_str_digits e) s"
    by (simp_all add: min_followers_def)
  from 1 2 3 show ?thesis by blast
qed

theorem non_positive_min_followers_skips_filter_witness:
  "map_sum id (map username \<circ> profiles_data)
     (fst (get_profiles sym_ops scenario_env \<lparr>args = [''min_followers'' \<mapsto> ''-5'']\<rparr>
        (demo_cache [demo_record ''x'' 9 True, demo_record ''y'' 7 False, demo_record ''z'' 0 True])
        initial_world))
     = Inr [''x'', ''y'', ''z'']
   \<and> map_sum id (map username \<circ> profiles_data)
     (fst (get_profiles sym_ops scenario_env \<lparr>args = [''min_followers'' \<mapsto> ''0'']\<rparr>
        (demo_cache [demo_record ''x'' 9 True, demo_record ''y'' 7 False, demo_record ''z'' 0 True])
        initial_world))
     = Inr [''x'', ''y'', ''z'']
   \<and> min_followers scenario_env \<lparr>args = Map.empty\<rparr> = Inr 0"
proof -
  let ?c = "demo_cache [demo_record ''x'' 9 True, demo_record ''y'' 7 False, demo_record ''z'' 0 True]"
  let ?r1 = "\<lparr>args = [''min_followers'' \<mapsto> ''-5'']\<rparr>"
  let ?r2 = "\<lparr>args = [''min_followers'' \<mapsto> ''0'']\<rparr>"
  let ?r3 = "\<lparr>args = Map.empty\<rparr>"
  note t1 = non_positive_min_followers_skips_filter
    [where req = ?r1 and m = "-5" and s = "''-5''" and fl = sym_ops and e = scenario_env
       and c = ?c and w = initial_world]
  note t2 = non_positive_min_followers_skips_filter
    [where req = ?r2 and m = 0 and s = "''0''" and fl = sym_ops and e = scenario_env
       and c = ?c and w = initial_world]
  note t3 = non_positive_min_followers_skips_filter
    [where req = ?r3 and m = 0 and s = "''0''" and fl = sym_ops and e = scenario_env
       and c = ?c and w = initial_world]
  have p1: "py_int (max_str_digits scenario_env) ''-5'' = Inr (-5)"
    and p2: "py_int (max_str_digits scenario_env) ''0'' = Inr 0"
    by (simp_all add: py_int_def strip_def is_space_def parse_unsigned_def digit_of_def
          too_many_digits_def Let_def)
  have a1: "args ?r1 ''min_followers'' = Some ''-5''"
    and a2: "args ?r2 ''min_followers'' = Some ''0''"
    and a3: "args ?r3 ''min_followers'' = None"
    by simp_all
  have m1: "min_followers scenario_env ?r1 = Inr (-5)"
    using t1 a1 p1 by simp
  have m2: "min_followers scenario_env ?r2 = Inr 0"
    using t2 a2 p2 by simp
  have m3: "min_followers scenario_env ?r3 = Inr 0"
    using t3 a3 by blast
  have v1: "\<not> verified_only ?r1" and v2: "\<not> verified_only ?r2"
    by (simp_all add: verified_only_def lower_def)
  have "map_sum id profiles_data (fst (get_profiles sym_ops scenario_env ?r1 ?c initial_world)) =
        Inr (if verified_only ?r1 then filter isVerified (profiles ?c) else profiles ?c)"
    using t1 m1 by simp
  then have 1: "map_sum id (map username \<circ> profiles_data)
      (fst (get_profiles sym_ops scenario_env ?r1 ?c initial_world)) =
        Inr (map username (if verified_only ?r1 then filter isVerified (profiles ?c) else profiles ?c))"
    by (rule map_sum_usernames)
  have "map_sum id profiles_data (fst (get_profiles sym_ops scenario_env ?r2 ?c initial_world)) =
        Inr (if verified_only ?r2 then filter isVerified (profiles ?c) else profiles ?c)"
    using t2 m2 by simp
  then have 2: "map_sum id (map username \<circ> profiles_data)
      (fst (get_profiles sym_ops scenario_env ?r2 ?c initial_world)) =
        Inr (map username (if verified_only ?r2 then filter isVerified (profiles ?c) else profiles ?c))"
    by (rule map_sum_usernames)
  have f1: "map username (if verified_only ?r1 then filter isVerified (profiles ?c) else profiles ?c)
      = [''x'', ''y'', ''z'']"
    using v1 by (simp add: demo_cache_def demo_record_def profile_record_def demo_profile_def)
  have f2: "map username (if verified_only ?r2 then filter isVerified (profiles ?c) else profiles ?c)
      = [''x'', ''y'', ''z'']"
    using v2 by (simp add: demo_cache_def demo_record_def profile_record_def demo_profile_def)
  from 1 2 m3 show ?thesis
    unfolding f1 f2 by blast
qed

subsection \<open>Errors that reach the client\<close>

text \<open>
  Claim C5 says that every call of the API is answered with success unless the cache is
  empty. The handler of \<^verbatim>\<open>GET /api/profiles\<close> passes \<^verbatim>\<open>min_followers\<close> to \<^verbatim>\<open>int\<close>
  outside any \<^verbatim>\<open>try\<close> block: for \<^verbatim>\<open>min_followers=abc\<close> a ValueError leaves the
  handler, whatever the cache holds, and no body is returned.
\<close>

theorem non_integer_min_followers_raises:
  "get_profiles fl e \<lparr>args = [''min_followers'' \<mapsto> ''abc'']\<rparr> c w = (Inl ValueError, w)"
  by (simp add: get_profiles_def min_followers_def py_int_def strip_def is_space_def
        parse_unsigned_def digit_of_def too_many_digits_def Let_def)

text \<open>
  The other calls are answered: the index, the health check and the refresh always,
  \<^verbatim>\<open>GET /api/profiles\<close> whenever \<^verbatim>\<open>min_followers\<close> is left out or is an integer, and
  \<^verbatim>\<open>GET /api/stats\<close> unless an average is out of the range of floats.
\<close>

lemma handlers_succeed:
  "(\<exists>resp. index c = Inr resp)
   \<and> (\<exists>resp. fst (health_check fl e c w) = Inr resp)
   \<and> (\<exists>resp. fst (refresh_profiles fl e wo st) = Inr resp \<and> refresh_success resp)
   \<and> (\<forall>m. min_followers e req = Inr m \<longrightarrow>
         (\<exists>resp. fst (get_profiles fl e req c w) = Inr resp \<and> profiles_success resp))
   \<and> (\<forall>err. min_followers e req = Inl err \<longrightarrow> fst (get_profiles fl e req c w) = Inl err)
   \<and> (\<forall>err. get_stats fl c = Inl err \<longrightarrow> err = OverflowError)"
  by (auto simp: index_def health_check_def refresh_profiles_def update_cache_data_eq
        get_profiles_def get_stats_def py_truediv_def Let_def
        split: prod.splits option.splits sum.splits if_splits)

end
